theory Spec2Isabelle
  imports Complex_Main "HOL-Library.AList"
begin

section \<open>Wire values\<close>

text \<open>
  The classes of \<^verbatim>\<open>unit_config.py\<close> are declarative: each is a pydantic \<^verbatim>\<open>BaseModel\<close>
  (version 2 of the library, as \<^verbatim>\<open>Field(default=None, ...)\<close> inside \<^verbatim>\<open>Annotated\<close> shows)
  whose fields carry a type annotation and a \<^verbatim>\<open>Field(...)\<close> with an alias, bounds and a
  default.
  Constructing an instance from structured input (\<^verbatim>\<open>Model.model_validate(obj)\<close>, the same
  as \<^verbatim>\<open>Model(**obj)\<close>) runs the validation the declarations describe. The embedding
  therefore has two layers: the validation machinery the declarations are interpreted by
  (the library's default, lax, Python-mode rules, written out below), and one validation
  function per class that lists the class's fields in declaration order with exactly the
  alias, annotation, bounds and default of the source.

  Structured input is a Python object built from \<^verbatim>\<open>None\<close>, booleans, integers, floats,
  strings, lists and string-keyed dictionaries. Integers are unbounded. A float is modelled
  by its exact rational value: binary rounding, infinities, NaN and the overflow of a
  number too large for a double are outside the model.
  A dictionary is an association list; a key is looked up with \<open>map_of\<close>.
\<close>

datatype pyval =
    PNone
  | PBool bool
  | PInt int
  | PFloat rat
  | PStr string
  | PList "pyval list"
  | PDict "(string \<times> pyval) list"

section \<open>Validation errors\<close>

text \<open>
  A failed validation raises one \<^verbatim>\<open>ValidationError\<close> that carries a list of line errors.
  Each line error has a location (the path of keys and list indices from the validated
  object down to the offending value) and an error type. The error types are the
  library's; \<open>kind_of\<close> sorts them into the five kinds of the specification.
\<close>

datatype loc_item = Key string | Idx nat

datatype error_type =
    Missing
  | ModelType
  | ListType
  | StringType
  | StringTooLong
  | IntType
  | IntParsing
  | IntParsingSize
  | IntFromFloat
  | FloatType
  | FloatParsing
  | GreaterThanEqual
  | LessThanEqual
  | GreaterThan
  | LessThan

datatype error_kind =
    MissingRequiredField
  | RangeViolation
  | LengthViolation
  | TypeMismatch
  | StructuralViolation

fun kind_of :: "error_type \<Rightarrow> error_kind" where
  "kind_of Missing = MissingRequiredField"
| "kind_of ModelType = StructuralViolation"
| "kind_of ListType = StructuralViolation"
| "kind_of StringType = TypeMismatch"
| "kind_of StringTooLong = LengthViolation"
| "kind_of IntType = TypeMismatch"
| "kind_of IntParsing = TypeMismatch"
| "kind_of IntParsingSize = TypeMismatch"
| "kind_of IntFromFloat = TypeMismatch"
| "kind_of FloatType = TypeMismatch"
| "kind_of FloatParsing = TypeMismatch"
| "kind_of GreaterThanEqual = RangeViolation"
| "kind_of LessThanEqual = RangeViolation"
| "kind_of GreaterThan = RangeViolation"
| "kind_of LessThan = RangeViolation"

type_synonym line_error = "loc_item list \<times> error_type"

type_synonym 'a result = "line_error list + 'a"

fun errs :: "'a result \<Rightarrow> line_error list" where
  "errs (Inl es) = es"
| "errs (Inr x) = []"

definition fail :: "error_type \<Rightarrow> 'a result" where
  "fail t = Inl [([], t)]"

text \<open>An error raised below a key or an index is re-raised with that item in front of its location.\<close>

definition at_loc :: "loc_item \<Rightarrow> 'a result \<Rightarrow> 'a result" where
  "at_loc i r = (case r of Inl es \<Rightarrow> Inl (map (\<lambda>(l, t). (i # l, t)) es) | Inr x \<Rightarrow> Inr x)"

text \<open>
  The fields of a model (and the items of a list) are all validated, in order, and the
  line errors of all of them are collected: \<open>ap\<close> applies a constructor to one more
  validated field and appends the errors.
\<close>

fun ap :: "('a \<Rightarrow> 'b) result \<Rightarrow> 'a result \<Rightarrow> 'b result" where
  "ap (Inr f) (Inr x) = Inr (f x)"
| "ap rf rx = Inl (errs rf @ errs rx)"

text \<open>A result is rejected at a location with a kind when one of its line errors says so.\<close>

definition rejected_at :: "'a result \<Rightarrow> loc_item list \<Rightarrow> error_kind \<Rightarrow> bool" where
  "rejected_at r l k = list_ex (\<lambda>(l', t). l' = l \<and> kind_of t = k) (errs r)"




section \<open>Scalar validation in lax mode\<close>

text \<open>
  None of the classes sets a model configuration, so every field is validated in the
  library's default lax mode: a value of the annotated type is taken as it is, and a value
  of certain other types is converted. For a \<^verbatim>\<open>float\<close> field a string is parsed as a
  number, and an integer or a boolean is converted; for an \<^verbatim>\<open>int\<close> field a string of at
  most 4300 characters is parsed, a boolean is converted, and a float is taken when it has
  no fractional part and fits 64 bits; a \<^verbatim>\<open>str\<close> field takes strings only.

  The numeral parsers below read an optional sign and decimal digits (with an optional
  fractional part for floats). The library reads more forms (exponents, underscores,
  surrounding blanks, \<^verbatim>\<open>inf\<close> and \<^verbatim>\<open>nan\<close>); whatever these parsers read, the library
  reads as the same number, as far as a double can hold it.
\<close>

definition digit_of :: "char \<Rightarrow> nat option" where
  "digit_of c = (let n = (of_char c :: nat) in if 48 \<le> n \<and> n \<le> 57 then Some (n - 48) else None)"

fun digits_value :: "nat \<Rightarrow> string \<Rightarrow> nat option" where
  "digits_value acc [] = Some acc"
| "digits_value acc (c # cs) =
     (case digit_of c of None \<Rightarrow> None | Some k \<Rightarrow> digits_value (10 * acc + k) cs)"

definition split_sign :: "string \<Rightarrow> bool \<times> string" where
  "split_sign s =
     (case s of
        [] \<Rightarrow> (False, [])
      | c # cs \<Rightarrow>
          if c = CHR ''-'' then (True, cs)
          else if c = CHR ''+'' then (False, cs)
          else (False, s))"

definition str_as_int :: "string \<Rightarrow> int option" where
  "str_as_int s =
     (case split_sign s of
        (neg, ds) \<Rightarrow>
          if ds = [] then None
          else (case digits_value 0 ds of
                  None \<Rightarrow> None
                | Some n \<Rightarrow> Some (if neg then - int n else int n)))"

definition str_as_float :: "string \<Rightarrow> rat option" where
  "str_as_float s =
     (case split_sign s of
        (neg, u) \<Rightarrow>
          let ip = takeWhile (\<lambda>c. c \<noteq> CHR ''.'') u;
              fp = drop 1 (dropWhile (\<lambda>c. c \<noteq> CHR ''.'') u)
          in if ip = [] \<and> fp = [] then None
             else (case (digits_value 0 ip, digits_value 0 fp) of
                     (Some a, Some b) \<Rightarrow>
                       Some ((if neg then - 1 else 1) * (of_nat a + of_nat b / 10 ^ length fp))
                   | _ \<Rightarrow> None))"


fun validate_float :: "pyval \<Rightarrow> rat result" where
  "validate_float (PFloat x) = Inr x"
| "validate_float (PStr s) =
     (case str_as_float s of Some x \<Rightarrow> Inr x | None \<Rightarrow> fail FloatParsing)"
| "validate_float (PInt n) = Inr (of_int n)"
| "validate_float (PBool b) = Inr (if b then 1 else 0)"
| "validate_float v = fail FloatType"

fun validate_int :: "pyval \<Rightarrow> int result" where
  "validate_int (PInt n) = Inr n"
| "validate_int (PBool b) = Inr (if b then 1 else 0)"
| "validate_int (PStr s) =
     (if 4300 < length s then fail IntParsingSize
      else (case str_as_int s of Some n \<Rightarrow> Inr n | None \<Rightarrow> fail IntParsing))"
| "validate_int (PFloat x) =
     (if x \<noteq> of_int \<lfloor>x\<rfloor> then fail IntFromFloat
      else if - (2 ^ 63) < x \<and> x < 2 ^ 63 then Inr \<lfloor>x\<rfloor>
      else fail IntParsingSize)"
| "validate_int v = fail IntType"

fun validate_str :: "pyval \<Rightarrow> string result" where
  "validate_str (PStr s) = Inr s"
| "validate_str v = fail StringType"

text \<open>
  The bounds of a \<^verbatim>\<open>Field\<close> (\<^verbatim>\<open>ge\<close>, \<^verbatim>\<open>le\<close>, \<^verbatim>\<open>gt\<close>, \<^verbatim>\<open>lt\<close>) are checked on the converted value,
  upper bounds first; the first bound that fails gives the error. The value itself is
  returned unchanged.
\<close>

definition check_bounds ::
  "'a::linorder option \<Rightarrow> 'a option \<Rightarrow> 'a option \<Rightarrow> 'a option \<Rightarrow> 'a \<Rightarrow> 'a result" where
  "check_bounds ge le gt lt x =
     (if (case le of Some b \<Rightarrow> \<not> x \<le> b | None \<Rightarrow> False) then fail LessThanEqual
      else if (case lt of Some b \<Rightarrow> \<not> x < b | None \<Rightarrow> False) then fail LessThan
      else if (case ge of Some b \<Rightarrow> \<not> b \<le> x | None \<Rightarrow> False) then fail GreaterThanEqual
      else if (case gt of Some b \<Rightarrow> \<not> b < x | None \<Rightarrow> False) then fail GreaterThan
      else Inr x)"

definition float_schema ::
  "rat option \<Rightarrow> rat option \<Rightarrow> rat option \<Rightarrow> rat option \<Rightarrow> pyval \<Rightarrow> rat result" where
  "float_schema ge le gt lt v =
     (case validate_float v of Inl es \<Rightarrow> Inl es | Inr x \<Rightarrow> check_bounds ge le gt lt x)"

definition int_schema ::
  "int option \<Rightarrow> int option \<Rightarrow> int option \<Rightarrow> int option \<Rightarrow> pyval \<Rightarrow> int result" where
  "int_schema ge le gt lt v =
     (case validate_int v of Inl es \<Rightarrow> Inl es | Inr x \<Rightarrow> check_bounds ge le gt lt x)"

section \<open>Fields of a model\<close>

text \<open>
  A field is looked up in the input dictionary under its alias only (the field's own name
  is not a key the validation reads, and keys that belong to no field are ignored). A
  field without a default is required: when its key is absent the line error is
  \<open>Missing\<close> at the alias. A field declared with \<^verbatim>\<open>default=None\<close> takes \<^verbatim>\<open>None\<close> when its
  key is absent, without validating the default; a present value is validated against
  the annotation.
\<close>

definition required :: "(string \<times> pyval) list \<Rightarrow> string \<Rightarrow> (pyval \<Rightarrow> 'a result) \<Rightarrow> 'a result" where
  "required d alias v =
     (case map_of d alias of
        None \<Rightarrow> Inl [([Key alias], Missing)]
      | Some x \<Rightarrow> at_loc (Key alias) (v x))"

definition default_None ::
  "(string \<times> pyval) list \<Rightarrow> string \<Rightarrow> (pyval \<Rightarrow> 'a option result) \<Rightarrow> 'a option result" where
  "default_None d alias v =
     (case map_of d alias of
        None \<Rightarrow> Inr None
      | Some x \<Rightarrow> at_loc (Key alias) (v x))"

text \<open>
  A field of a model holds \<^verbatim>\<open>None\<close> or a value, so its type here is an option. An
  annotation \<^verbatim>\<open>T\<close> validates a present value as a \<^verbatim>\<open>T\<close> (\<^verbatim>\<open>None\<close> is not a \<^verbatim>\<open>T\<close>
  and is rejected by \<^verbatim>\<open>T\<close>'s own validation); an annotation \<^verbatim>\<open>Optional[T]\<close> takes
  \<^verbatim>\<open>None\<close> as well.
\<close>

definition just :: "(pyval \<Rightarrow> 'a result) \<Rightarrow> pyval \<Rightarrow> 'a option result" where
  "just v x = ap (Inr Some) (v x)"

definition nullable_schema :: "(pyval \<Rightarrow> 'a result) \<Rightarrow> pyval \<Rightarrow> 'a option result" where
  "nullable_schema v x = (case x of PNone \<Rightarrow> Inr None | _ \<Rightarrow> ap (Inr Some) (v x))"

text \<open>
  A list field takes a list and validates every item, each under its index; the errors of
  all items are collected.
\<close>

fun validate_items :: "(pyval \<Rightarrow> 'a result) \<Rightarrow> nat \<Rightarrow> pyval list \<Rightarrow> 'a list result" where
  "validate_items item i [] = Inr []"
| "validate_items item i (x # xs) =
     ap (ap (Inr Cons) (at_loc (Idx i) (item x))) (validate_items item (Suc i) xs)"

fun list_schema :: "(pyval \<Rightarrow> 'a result) \<Rightarrow> pyval \<Rightarrow> 'a list result" where
  "list_schema item (PList xs) = validate_items item 0 xs"
| "list_schema item v = fail ListType"

text \<open>
  The union \<^verbatim>\<open>str | int\<close> keeps a string as a string and an integer as an integer.
  Any other value is tried against the members in lax mode, in order; when no member
  takes it, the errors of both are reported, each under the member's tag.
\<close>

datatype str_int = VStr string | VInt int

fun str_int_schema :: "pyval \<Rightarrow> str_int result" where
  "str_int_schema (PStr s) = Inr (VStr s)"
| "str_int_schema (PInt n) = Inr (VInt n)"
| "str_int_schema v =
     (case validate_int v of
        Inr n \<Rightarrow> Inr (VInt n)
      | Inl es \<Rightarrow>
          Inl (errs (at_loc (Key ''str'') (validate_str v)) @ errs (at_loc (Key ''int'') (validate_int v))))"

section \<open>Serialization\<close>

text \<open>
  The classes define no serializer of their own: an instance is serialized by the
  inherited \<^verbatim>\<open>model_dump(by_alias=False, exclude_none=False)\<close>. It emits the fields in
  declaration order, each under its alias when \<^verbatim>\<open>by_alias\<close> is set and under its own name
  otherwise; a field that holds \<^verbatim>\<open>None\<close> is emitted as \<^verbatim>\<open>None\<close> unless
  \<^verbatim>\<open>exclude_none\<close> is set, which leaves it out. Nested models are dumped with the same
  flags.
\<close>

definition field_key :: "bool \<Rightarrow> string \<Rightarrow> string \<Rightarrow> string" where
  "field_key by_alias name alias = (if by_alias then alias else name)"

fun is_None :: "pyval \<Rightarrow> bool" where
  "is_None PNone = True"
| "is_None v = False"

definition dump_fields :: "bool \<Rightarrow> (string \<times> pyval) list \<Rightarrow> pyval" where
  "dump_fields exclude_none kvs =
     PDict (if exclude_none then filter (\<lambda>(k, v). \<not> is_None v) kvs else kvs)"


definition dump_opt :: "('a \<Rightarrow> pyval) \<Rightarrow> 'a option \<Rightarrow> pyval" where
  "dump_opt f x = (case x of None \<Rightarrow> PNone | Some y \<Rightarrow> f y)"

definition dump_list :: "('a \<Rightarrow> pyval) \<Rightarrow> 'a list \<Rightarrow> pyval" where
  "dump_list f xs = PList (map f xs)"

fun dump_str_int :: "str_int \<Rightarrow> pyval" where
  "dump_str_int (VStr s) = PStr s"
| "dump_str_int (VInt n) = PInt n"

section \<open>Threshold rules\<close>

record AlertRulePercents =
  min_threshold :: rat
  max_threshold :: rat
  min_timeout :: rat

definition AlertRulePercents_model_validate :: "pyval \<Rightarrow> AlertRulePercents result" where
  "AlertRulePercents_model_validate v =
     (case v of
        PDict d \<Rightarrow>
          ap (ap (ap (Inr AlertRulePercents.make)
            (required d ''minThreshold'' (float_schema (Some 0) (Some 100) None None)))
            (required d ''maxThreshold'' (float_schema (Some 0) (Some 100) None None)))
            (required d ''minTimeout'' (float_schema None None (Some 0) None))
      | _ \<Rightarrow> fail ModelType)"

definition AlertRulePercents_model_dump :: "bool \<Rightarrow> bool \<Rightarrow> AlertRulePercents \<Rightarrow> pyval" where
  "AlertRulePercents_model_dump by_alias exclude_none r =
     dump_fields exclude_none
       [(field_key by_alias ''min_threshold'' ''minThreshold'', PFloat (AlertRulePercents.min_threshold r)),
        (field_key by_alias ''max_threshold'' ''maxThreshold'', PFloat (AlertRulePercents.max_threshold r)),
        (field_key by_alias ''min_timeout'' ''minTimeout'', PFloat (AlertRulePercents.min_timeout r))]"

text \<open>The subclass inherits the three fields and adds \<^verbatim>\<open>name\<close> after them.\<close>

record AlertRulePercentsOfDisk = AlertRulePercents +
  name :: string

definition AlertRulePercentsOfDisk_model_validate :: "pyval \<Rightarrow> AlertRulePercentsOfDisk result" where
  "AlertRulePercentsOfDisk_model_validate v =
     (case v of
        PDict d \<Rightarrow>
          ap (ap (ap (ap (Inr AlertRulePercentsOfDisk.make)
            (required d ''minThreshold'' (float_schema (Some 0) (Some 100) None None)))
            (required d ''maxThreshold'' (float_schema (Some 0) (Some 100) None None)))
            (required d ''minTimeout'' (float_schema None None (Some 0) None)))
            (required d ''name'' validate_str)
      | _ \<Rightarrow> fail ModelType)"

definition AlertRulePercentsOfDisk_model_dump ::
  "bool \<Rightarrow> bool \<Rightarrow> AlertRulePercentsOfDisk \<Rightarrow> pyval" where
  "AlertRulePercentsOfDisk_model_dump by_alias exclude_none r =
     dump_fields exclude_none
       [(field_key by_alias ''min_threshold'' ''minThreshold'', PFloat (AlertRulePercents.min_threshold r)),
        (field_key by_alias ''max_threshold'' ''maxThreshold'', PFloat (AlertRulePercents.max_threshold r)),
        (field_key by_alias ''min_timeout'' ''minTimeout'', PFloat (AlertRulePercents.min_timeout r)),
        (field_key by_alias ''name'' ''name'', PStr (AlertRulePercentsOfDisk.name r))]"

record AlertRulePoints =
  min_threshold :: int
  max_threshold :: int
  min_timeout :: rat

definition AlertRulePoints_model_validate :: "pyval \<Rightarrow> AlertRulePoints result" where
  "AlertRulePoints_model_validate v =
     (case v of
        PDict d \<Rightarrow>
          ap (ap (ap (Inr AlertRulePoints.make)
            (required d ''minThreshold'' (int_schema (Some 0) None None None)))
            (required d ''maxThreshold'' (int_schema (Some 0) None None None)))
            (required d ''minTimeout'' (float_schema None None (Some 0) None))
      | _ \<Rightarrow> fail ModelType)"

definition AlertRulePoints_model_dump :: "bool \<Rightarrow> bool \<Rightarrow> AlertRulePoints \<Rightarrow> pyval" where
  "AlertRulePoints_model_dump by_alias exclude_none r =
     dump_fields exclude_none
       [(field_key by_alias ''min_threshold'' ''minThreshold'', PInt (AlertRulePoints.min_threshold r)),
        (field_key by_alias ''max_threshold'' ''maxThreshold'', PInt (AlertRulePoints.max_threshold r)),
        (field_key by_alias ''min_timeout'' ''minTimeout'', PFloat (AlertRulePoints.min_timeout r))]"

section \<open>Resource ratios and alert rules\<close>

record ResourceRatiosInfo =
  cpu :: "rat option"
  ram :: "rat option"
  storage :: "rat option"
  state :: "rat option"

definition ResourceRatiosInfo_model_validate :: "pyval \<Rightarrow> ResourceRatiosInfo result" where
  "ResourceRatiosInfo_model_validate v =
     (case v of
        PDict d \<Rightarrow>
          ap (ap (ap (ap (Inr ResourceRatiosInfo.make)
            (default_None d ''cpu'' (just (float_schema None None None None))))
            (default_None d ''ram'' (just (float_schema None None None None))))
            (default_None d ''storage'' (just (float_schema None None None None))))
            (default_None d ''state'' (just (float_schema None None None None)))
      | _ \<Rightarrow> fail ModelType)"

definition ResourceRatiosInfo_model_dump :: "bool \<Rightarrow> bool \<Rightarrow> ResourceRatiosInfo \<Rightarrow> pyval" where
  "ResourceRatiosInfo_model_dump by_alias exclude_none r =
     dump_fields exclude_none
       [(field_key by_alias ''cpu'' ''cpu'', dump_opt PFloat (ResourceRatiosInfo.cpu r)),
        (field_key by_alias ''ram'' ''ram'', dump_opt PFloat (ResourceRatiosInfo.ram r)),
        (field_key by_alias ''storage'' ''storage'', dump_opt PFloat (ResourceRatiosInfo.storage r)),
        (field_key by_alias ''state'' ''state'', dump_opt PFloat (ResourceRatiosInfo.state r))]"

record AlertRules =
  cpu :: "AlertRulePercents option"
  ram :: "AlertRulePercents option"
  partitions :: "AlertRulePercentsOfDisk list option"
  download :: "AlertRulePoints option"
  upload :: "AlertRulePoints option"

definition AlertRules_model_validate :: "pyval \<Rightarrow> AlertRules result" where
  "AlertRules_model_validate v =
     (case v of
        PDict d \<Rightarrow>
          ap (ap (ap (ap (ap (Inr AlertRules.make)
            (default_None d ''cpu'' (just AlertRulePercents_model_validate)))
            (default_None d ''ram'' (just AlertRulePercents_model_validate)))
            (default_None d ''partitions''
               (nullable_schema (list_schema AlertRulePercentsOfDisk_model_validate))))
            (default_None d ''download'' (just AlertRulePoints_model_validate)))
            (default_None d ''upload'' (just AlertRulePoints_model_validate))
      | _ \<Rightarrow> fail ModelType)"

definition AlertRules_model_dump :: "bool \<Rightarrow> bool \<Rightarrow> AlertRules \<Rightarrow> pyval" where
  "AlertRules_model_dump by_alias exclude_none r =
     dump_fields exclude_none
       [(field_key by_alias ''cpu'' ''cpu'',
           dump_opt (AlertRulePercents_model_dump by_alias exclude_none) (AlertRules.cpu r)),
        (field_key by_alias ''ram'' ''ram'',
           dump_opt (AlertRulePercents_model_dump by_alias exclude_none) (AlertRules.ram r)),
        (field_key by_alias ''partitions'' ''partitions'',
           dump_opt (dump_list (AlertRulePercentsOfDisk_model_dump by_alias exclude_none))
             (AlertRules.partitions r)),
        (field_key by_alias ''download'' ''download'',
           dump_opt (AlertRulePoints_model_dump by_alias exclude_none) (AlertRules.download r)),
        (field_key by_alias ''upload'' ''upload'',
           dump_opt (AlertRulePoints_model_dump by_alias exclude_none) (AlertRules.upload r))]"

section \<open>Resources\<close>

text \<open>
  \<^verbatim>\<open>AosDeviceInfo\<close>, \<^verbatim>\<open>AosFileSystemMount\<close> and \<^verbatim>\<open>AosHostRecord\<close> are imported from
  \<^verbatim>\<open>cloud_common.protocols.unit.common\<close>, which is not among the sources. Their
  validation and serialization are parameters of everything that contains them.
\<close>

record ('d, 'm, 'h) common =
  AosDeviceInfo_model_validate :: "pyval \<Rightarrow> 'd result"
  AosDeviceInfo_model_dump :: "bool \<Rightarrow> bool \<Rightarrow> 'd \<Rightarrow> pyval"
  AosFileSystemMount_model_validate :: "pyval \<Rightarrow> 'm result"
  AosFileSystemMount_model_dump :: "bool \<Rightarrow> bool \<Rightarrow> 'm \<Rightarrow> pyval"
  AosHostRecord_model_validate :: "pyval \<Rightarrow> 'h result"
  AosHostRecord_model_dump :: "bool \<Rightarrow> bool \<Rightarrow> 'h \<Rightarrow> pyval"

record ('m, 'h) ResourceInfo =
  name :: string
  groups :: "string list option"
  mounts :: "'m list option"
  envs :: "string list option"
  hosts :: "'h list option"

definition ResourceInfo_model_validate ::
  "('d, 'm, 'h) common \<Rightarrow> pyval \<Rightarrow> ('m, 'h) ResourceInfo result" where
  "ResourceInfo_model_validate E v =
     (case v of
        PDict d \<Rightarrow>
          ap (ap (ap (ap (ap (Inr ResourceInfo.make)
            (required d ''name'' validate_str))
            (default_None d ''groups'' (just (list_schema validate_str))))
            (default_None d ''mounts'' (just (list_schema (AosFileSystemMount_model_validate E)))))
            (default_None d ''envs'' (just (list_schema validate_str))))
            (default_None d ''hosts'' (just (list_schema (AosHostRecord_model_validate E))))
      | _ \<Rightarrow> fail ModelType)"

definition ResourceInfo_model_dump ::
  "('d, 'm, 'h) common \<Rightarrow> bool \<Rightarrow> bool \<Rightarrow> ('m, 'h) ResourceInfo \<Rightarrow> pyval" where
  "ResourceInfo_model_dump E by_alias exclude_none r =
     dump_fields exclude_none
       [(field_key by_alias ''name'' ''name'', PStr (ResourceInfo.name r)),
        (field_key by_alias ''groups'' ''groups'', dump_opt (dump_list PStr) (ResourceInfo.groups r)),
        (field_key by_alias ''mounts'' ''mounts'',
           dump_opt (dump_list (AosFileSystemMount_model_dump E by_alias exclude_none))
             (ResourceInfo.mounts r)),
        (field_key by_alias ''envs'' ''envs'', dump_opt (dump_list PStr) (ResourceInfo.envs r)),
        (field_key by_alias ''hosts'' ''hosts'',
           dump_opt (dump_list (AosHostRecord_model_dump E by_alias exclude_none))
             (ResourceInfo.hosts r))]"

section \<open>Node and unit configuration\<close>

text \<open>
  Modelled from the spec: \<^verbatim>\<open>TypeNodeTypeMandatory\<close> is declared in
  \<^verbatim>\<open>cloud_common.protocols.unit.types\<close>, which is not among the sources. The
  specification makes \<^verbatim>\<open>node_type\<close> a mandatory field with the wire name \<^verbatim>\<open>nodeType\<close>;
  it is taken to be a string.
\<close>

definition TypeNodeTypeMandatory :: "(string \<times> pyval) list \<Rightarrow> string result" where
  "TypeNodeTypeMandatory d = required d ''nodeType'' validate_str"

text \<open>
  Modelled from the spec: \<^verbatim>\<open>TypeNodeIdOptional\<close> is declared in the same missing module.
  The specification makes \<^verbatim>\<open>node_id\<close> optional; it is taken to be a string under the
  lowerCamelCase wire name \<^verbatim>\<open>nodeId\<close>, absent by default.
\<close>

definition TypeNodeIdOptional :: "(string \<times> pyval) list \<Rightarrow> string option result" where
  "TypeNodeIdOptional d = default_None d ''nodeId'' (just validate_str)"

text \<open>
  Modelled from the spec: \<^verbatim>\<open>TypeVersionMandatory\<close> is declared in the same missing
  module. The specification makes \<^verbatim>\<open>version\<close> a mandatory field; it is taken to be a
  string under the wire name \<^verbatim>\<open>version\<close>.
\<close>

definition TypeVersionMandatory :: "(string \<times> pyval) list \<Rightarrow> string result" where
  "TypeVersionMandatory d = required d ''version'' validate_str"

record ('d, 'm, 'h) NodeConfig =
  node_type :: string
  node_id :: "string option"
  alert_rules :: "AlertRules option"
  resource_ratios :: "ResourceRatiosInfo option"
  devices :: "'d list option"
  resources :: "('m, 'h) ResourceInfo list option"
  labels :: "string list option"
  priority :: int

definition NodeConfig_model_validate ::
  "('d, 'm, 'h) common \<Rightarrow> pyval \<Rightarrow> ('d, 'm, 'h) NodeConfig result" where
  "NodeConfig_model_validate E v =
     (case v of
        PDict d \<Rightarrow>
          ap (ap (ap (ap (ap (ap (ap (ap (Inr NodeConfig.make)
            (TypeNodeTypeMandatory d))
            (TypeNodeIdOptional d))
            (default_None d ''alertRules'' (just AlertRules_model_validate)))
            (default_None d ''resourceRatios'' (just ResourceRatiosInfo_model_validate)))
            (default_None d ''devices'' (just (list_schema (AosDeviceInfo_model_validate E)))))
            (default_None d ''resources'' (just (list_schema (ResourceInfo_model_validate E)))))
            (default_None d ''labels'' (just (list_schema validate_str))))
            (required d ''priority'' (int_schema (Some 0) None None (Some (2 ^ 32 - 1))))
      | _ \<Rightarrow> fail ModelType)"

definition NodeConfig_model_dump ::
  "('d, 'm, 'h) common \<Rightarrow> bool \<Rightarrow> bool \<Rightarrow> ('d, 'm, 'h) NodeConfig \<Rightarrow> pyval" where
  "NodeConfig_model_dump E by_alias exclude_none r =
     dump_fields exclude_none
       [(field_key by_alias ''node_type'' ''nodeType'', PStr (node_type r)),
        (field_key by_alias ''node_id'' ''nodeId'', dump_opt PStr (node_id r)),
        (field_key by_alias ''alert_rules'' ''alertRules'',
           dump_opt (AlertRules_model_dump by_alias exclude_none) (alert_rules r)),
        (field_key by_alias ''resource_ratios'' ''resourceRatios'',
           dump_opt (ResourceRatiosInfo_model_dump by_alias exclude_none) (resource_ratios r)),
        (field_key by_alias ''devices'' ''devices'',
           dump_opt (dump_list (AosDeviceInfo_model_dump E by_alias exclude_none)) (devices r)),
        (field_key by_alias ''resources'' ''resources'',
           dump_opt (dump_list (ResourceInfo_model_dump E by_alias exclude_none)) (resources r)),
        (field_key by_alias ''labels'' ''labels'', dump_opt (dump_list PStr) (labels r)),
        (field_key by_alias ''priority'' ''priority'', PInt (priority r))]"

record ('d, 'm, 'h) UnitConfig =
  format_version :: str_int
  version :: string
  nodes :: "('d, 'm, 'h) NodeConfig list"

definition UnitConfig_model_validate ::
  "('d, 'm, 'h) common \<Rightarrow> pyval \<Rightarrow> ('d, 'm, 'h) UnitConfig result" where
  "UnitConfig_model_validate E v =
     (case v of
        PDict d \<Rightarrow>
          ap (ap (ap (Inr UnitConfig.make)
            (required d ''formatVersion'' str_int_schema))
            (TypeVersionMandatory d))
            (required d ''nodes'' (list_schema (NodeConfig_model_validate E)))
      | _ \<Rightarrow> fail ModelType)"

definition UnitConfig_model_dump ::
  "('d, 'm, 'h) common \<Rightarrow> bool \<Rightarrow> bool \<Rightarrow> ('d, 'm, 'h) UnitConfig \<Rightarrow> pyval" where
  "UnitConfig_model_dump E by_alias exclude_none r =
     dump_fields exclude_none
       [(field_key by_alias ''format_version'' ''formatVersion'', dump_str_int (format_version r)),
        (field_key by_alias ''version'' ''version'', PStr (version r)),
        (field_key by_alias ''nodes'' ''nodes'',
           dump_list (NodeConfig_model_dump E by_alias exclude_none) (nodes r))]"

text \<open>
  Modelled from the spec: the classes of the missing module \<^verbatim>\<open>common\<close> are, in the
  specification's words, consumed as opaque validated sub-objects. This instance of the
  parameters takes any dictionary and keeps it as it is; it stands for the missing classes
  in the closed examples, none of which contains a device, a mount or a host record.
\<close>

definition opaque_model_validate :: "pyval \<Rightarrow> (string \<times> pyval) list result" where
  "opaque_model_validate v = (case v of PDict d \<Rightarrow> Inr d | _ \<Rightarrow> fail ModelType)"

definition opaque_model_dump :: "bool \<Rightarrow> bool \<Rightarrow> (string \<times> pyval) list \<Rightarrow> pyval" where
  "opaque_model_dump by_alias exclude_none d = PDict d"

definition opaque_common ::
  "((string \<times> pyval) list, (string \<times> pyval) list, (string \<times> pyval) list) common" where
  "opaque_common =
     \<lparr>AosDeviceInfo_model_validate = opaque_model_validate,
      AosDeviceInfo_model_dump = opaque_model_dump,
      AosFileSystemMount_model_validate = opaque_model_validate,
      AosFileSystemMount_model_dump = opaque_model_dump,
      AosHostRecord_model_validate = opaque_model_validate,
      AosHostRecord_model_dump = opaque_model_dump\<rparr>"

section \<open>Example documents\<close>

text \<open>
  A unit with two nodes, the first with a CPU alert rule, the second with an identifier
  and two labels; the format version is left open, to be given as a string or as an
  integer. \<open>example_unit\<close> is the instance the document validates to.
\<close>

definition example_unit_document :: "pyval \<Rightarrow> pyval" where
  "example_unit_document fv =
     PDict [(''formatVersion'', fv), (''version'', PStr ''1.0.0''),
            (''nodes'', PList
               [PDict [(''nodeType'', PStr ''main''), (''priority'', PInt 5),
                       (''alertRules'', PDict [(''cpu'', PDict [(''minThreshold'', PInt 10),
                          (''maxThreshold'', PInt 80), (''minTimeout'', PInt 30)])])],
                PDict [(''nodeType'', PStr ''aux''), (''nodeId'', PStr ''n2''), (''priority'', PInt 0),
                       (''labels'', PList [PStr ''b'', PStr ''a''])]])]"

definition example_unit ::
  "str_int \<Rightarrow> ((string \<times> pyval) list, (string \<times> pyval) list, (string \<times> pyval) list) UnitConfig" where
  "example_unit fv =
     \<lparr>format_version = fv, version = ''1.0.0'',
      nodes =
        [\<lparr>node_type = ''main'', node_id = None,
           alert_rules = Some \<lparr>AlertRules.cpu =
               Some \<lparr>AlertRulePercents.min_threshold = 10, AlertRulePercents.max_threshold = 80,
                     AlertRulePercents.min_timeout = 30\<rparr>,
             AlertRules.ram = None, AlertRules.partitions = None, AlertRules.download = None,
             AlertRules.upload = None\<rparr>,
           resource_ratios = None, devices = None, resources = None, labels = None,
           priority = 5\<rparr>,
         \<lparr>node_type = ''aux'', node_id = Some ''n2'', alert_rules = None,
           resource_ratios = None, devices = None, resources = None,
           labels = Some [''b'', ''a''], priority = 0\<rparr>]\<rparr>"

text \<open>A unit with one node that configures no optional field but its identifier.\<close>

definition plain_unit ::
  "((string \<times> pyval) list, (string \<times> pyval) list, (string \<times> pyval) list) UnitConfig" where
  "plain_unit =
     \<lparr>format_version = VInt 2, version = ''1.0.0'',
      nodes =
        [\<lparr>node_type = ''main'', node_id = Some ''n1'', alert_rules = None,
           resource_ratios = None, devices = None, resources = None, labels = None,
           priority = 5\<rparr>]\<rparr>"

section \<open>Results about the validation machinery\<close>

lemma ap_Inr_iff: "ap rf rx = Inr y \<longleftrightarrow> (\<exists>f x. rf = Inr f \<and> rx = Inr x \<and> y = f x)"
  by (cases rf; cases rx) auto

lemma errs_ap: "errs (ap rf rx) = errs rf @ errs rx"
  by (cases rf; cases rx) auto

lemma errs_at_loc: "errs (at_loc i r) = map (\<lambda>(l, t). (i # l, t)) (errs r)"
  by (cases r) (auto simp: at_loc_def)

lemma at_loc_Inr_iff: "at_loc i r = Inr x \<longleftrightarrow> r = Inr x"
  by (cases r) (auto simp: at_loc_def)

lemma required_Inr_iff:
  "required d k v = Inr x \<longleftrightarrow> (\<exists>y. map_of d k = Some y \<and> v y = Inr x)"
  by (auto simp: required_def at_loc_Inr_iff split: option.splits)

lemma errs_required_absent: "map_of d k = None \<Longrightarrow> errs (required d k v) = [([Key k], Missing)]"
  by (simp add: required_def)

lemma errs_required_present:
  "map_of d k = Some y \<Longrightarrow> errs (required d k v) = map (\<lambda>(l, t). (Key k # l, t)) (errs (v y))"
  by (simp add: required_def errs_at_loc)

lemma check_bounds_Inr_iff:
  "check_bounds ge le gt lt x = Inr y \<longleftrightarrow>
     y = x \<and> (\<forall>b. le = Some b \<longrightarrow> x \<le> b) \<and> (\<forall>b. lt = Some b \<longrightarrow> x < b)
       \<and> (\<forall>b. ge = Some b \<longrightarrow> b \<le> x) \<and> (\<forall>b. gt = Some b \<longrightarrow> b < x)"
  by (auto simp: check_bounds_def fail_def split: option.splits)

lemma float_schema_Inr_iff:
  "float_schema ge le gt lt v = Inr y \<longleftrightarrow>
     validate_float v = Inr y \<and> (\<forall>b. le = Some b \<longrightarrow> y \<le> b) \<and> (\<forall>b. lt = Some b \<longrightarrow> y < b)
       \<and> (\<forall>b. ge = Some b \<longrightarrow> b \<le> y) \<and> (\<forall>b. gt = Some b \<longrightarrow> b < y)"
  by (cases "validate_float v") (auto simp: float_schema_def check_bounds_Inr_iff)


lemma rejected_at_iff:
  "rejected_at r l k \<longleftrightarrow> (\<exists>es t. r = Inl es \<and> (l, t) \<in> set es \<and> kind_of t = k)"
  by (cases r) (auto simp: rejected_at_def list_ex_iff)

lemma AlertRulePercents_Inr_iff:
  "AlertRulePercents_model_validate (PDict d) = Inr r \<longleftrightarrow>
     (\<exists>x y z a b c.
        map_of d ''minThreshold'' = Some x \<and> validate_float x = Inr a \<and>
        map_of d ''maxThreshold'' = Some y \<and> validate_float y = Inr b \<and>
        map_of d ''minTimeout'' = Some z \<and> validate_float z = Inr c \<and>
        0 \<le> a \<and> a \<le> 100 \<and> 0 \<le> b \<and> b \<le> 100 \<and> 0 < c \<and>
        r = \<lparr>AlertRulePercents.min_threshold = a, AlertRulePercents.max_threshold = b,
              AlertRulePercents.min_timeout = c\<rparr>)"
  by (auto simp: AlertRulePercents_model_validate_def ap_Inr_iff required_Inr_iff
      float_schema_Inr_iff AlertRulePercents.defs)

lemma rejected_at_Inr [simp]: "\<not> rejected_at (Inr x) l k"
  by (simp add: rejected_at_def)

lemma rejected_at_ap: "rejected_at (ap rf rx) l k \<longleftrightarrow> rejected_at rf l k \<or> rejected_at rx l k"
  by (simp add: rejected_at_def errs_ap)

lemma rejected_at_required_absent:
  "map_of d k = None \<Longrightarrow> rejected_at (required d k v) [Key k] MissingRequiredField"
  by (simp add: rejected_at_def errs_required_absent)


section \<open>Percent thresholds are range-checked, not clamped\<close>



lemma rejected_at_fail: "rejected_at (fail t) l k \<longleftrightarrow> l = [] \<and> kind_of t = k"
  by (auto simp: rejected_at_def fail_def)

lemma rejected_at_at_loc: "rejected_at (at_loc i r) (i # l) k \<longleftrightarrow> rejected_at r l k"
  by (force simp: rejected_at_def errs_at_loc list_ex_iff case_prod_beta)


lemma rejected_at_required_present:
  "map_of d a = Some x \<Longrightarrow> rejected_at (required d a v) (Key a # l) k \<longleftrightarrow> rejected_at (v x) l k"
  by (simp add: required_def rejected_at_at_loc)



lemma just_Inr_iff: "just v x = Inr y \<longleftrightarrow> (\<exists>z. v x = Inr z \<and> y = Some z)"
  by (auto simp: just_def ap_Inr_iff)

lemma default_None_Inr_iff:
  "default_None d a v = Inr y \<longleftrightarrow> (case map_of d a of None \<Rightarrow> y = None | Some x \<Rightarrow> v x = Inr y)"
  by (auto simp: default_None_def at_loc_Inr_iff split: option.splits)

lemma int_schema_Inr_iff:
  "int_schema ge le gt lt v = Inr y \<longleftrightarrow>
     validate_int v = Inr y \<and> (\<forall>b. le = Some b \<longrightarrow> y \<le> b) \<and> (\<forall>b. lt = Some b \<longrightarrow> y < b)
       \<and> (\<forall>b. ge = Some b \<longrightarrow> b \<le> y) \<and> (\<forall>b. gt = Some b \<longrightarrow> b < y)"
  by (cases "validate_int v") (auto simp: int_schema_def check_bounds_Inr_iff)

lemma int_schema_range_error:
  assumes "validate_int v = Inr x" and "int_schema ge le gt lt v \<noteq> Inr x"
  shows "\<exists>t. errs (int_schema ge le gt lt v) = [([], t)] \<and> kind_of t = RangeViolation"
  using assms by (auto simp: int_schema_def check_bounds_def fail_def split: option.splits if_splits)

lemma rejected_at_required_int_range:
  assumes "map_of d k = Some x" and "validate_int x = Inr a"
    and "int_schema ge le gt lt x \<noteq> Inr a"
  shows "rejected_at (required d k (int_schema ge le gt lt)) [Key k] RangeViolation"
proof -
  obtain t where "errs (int_schema ge le gt lt x) = [([], t)]" and "kind_of t = RangeViolation"
    using int_schema_range_error[OF assms(2,3)] by blast
  then show ?thesis
    using assms(1) by (simp add: rejected_at_def errs_required_present)
qed

lemma validate_str_Inr_iff: "validate_str x = Inr s \<longleftrightarrow> x = PStr s"
  by (cases x) (auto simp: fail_def)

lemma AlertRulePercentsOfDisk_Inr_iff:
  "AlertRulePercentsOfDisk_model_validate (PDict d) = Inr r \<longleftrightarrow>
     (\<exists>p s. AlertRulePercents_model_validate (PDict d) = Inr p \<and> map_of d ''name'' = Some (PStr s) \<and>
        r = AlertRulePercents.extend p (AlertRulePercentsOfDisk.fields s))"
  by (auto simp: AlertRulePercentsOfDisk_model_validate_def AlertRulePercents_model_validate_def
      ap_Inr_iff required_Inr_iff validate_str_Inr_iff
      AlertRulePercents.defs AlertRulePercentsOfDisk.defs)

section \<open>The partition name is mandatory; it may be empty\<close>

text \<open>
  Claim C2 (amended). \<^verbatim>\<open>AlertRulePercentsOfDisk.name\<close> is declared as a required \<^verbatim>\<open>str\<close>
  with no length bound. An absent \<^verbatim>\<open>name\<close> is rejected with a missing-field error at
  \<^verbatim>\<open>name\<close> and a value that is not a string with a type mismatch there; with valid
  thresholds every string is accepted as the name, the empty string included, and an
  accepted instance holds the string that was given.
\<close>

theorem AlertRulePercentsOfDisk_name_mandatory:
  "(map_of d ''name'' = None \<longrightarrow>
      rejected_at (AlertRulePercentsOfDisk_model_validate (PDict d)) [Key ''name''] MissingRequiredField) \<and>
   (\<forall>x. map_of d ''name'' = Some x \<and> (\<forall>s. x \<noteq> PStr s) \<longrightarrow>
      rejected_at (AlertRulePercentsOfDisk_model_validate (PDict d)) [Key ''name''] TypeMismatch) \<and>
   (\<forall>p s. AlertRulePercents_model_validate (PDict d) = Inr p \<and> map_of d ''name'' = Some (PStr s) \<longrightarrow>
      AlertRulePercentsOfDisk_model_validate (PDict d) =
        Inr \<lparr>AlertRulePercents.min_threshold = AlertRulePercents.min_threshold p,
             AlertRulePercents.max_threshold = AlertRulePercents.max_threshold p,
             AlertRulePercents.min_timeout = AlertRulePercents.min_timeout p,
             AlertRulePercentsOfDisk.name = s\<rparr>) \<and>
   (\<forall>r. AlertRulePercentsOfDisk_model_validate (PDict d) = Inr r \<longrightarrow>
      map_of d ''name'' = Some (PStr (AlertRulePercentsOfDisk.name r)))"
proof (intro conjI allI impI)
  assume "map_of d ''name'' = None"
  then show "rejected_at (AlertRulePercentsOfDisk_model_validate (PDict d)) [Key ''name''] MissingRequiredField"
    by (simp add: AlertRulePercentsOfDisk_model_validate_def rejected_at_ap rejected_at_required_absent)
next
  fix x assume a: "map_of d ''name'' = Some x \<and> (\<forall>s. x \<noteq> PStr s)"
  then have "rejected_at (validate_str x) [] TypeMismatch"
    by (cases x) (auto simp: rejected_at_fail)
  with a show "rejected_at (AlertRulePercentsOfDisk_model_validate (PDict d)) [Key ''name''] TypeMismatch"
    by (simp add: AlertRulePercentsOfDisk_model_validate_def rejected_at_ap rejected_at_required_present)
next
  fix p s
  assume "AlertRulePercents_model_validate (PDict d) = Inr p \<and> map_of d ''name'' = Some (PStr s)"
  then show "AlertRulePercentsOfDisk_model_validate (PDict d) =
        Inr \<lparr>AlertRulePercents.min_threshold = AlertRulePercents.min_threshold p,
             AlertRulePercents.max_threshold = AlertRulePercents.max_threshold p,
             AlertRulePercents.min_timeout = AlertRulePercents.min_timeout p,
             AlertRulePercentsOfDisk.name = s\<rparr>"
    by (simp add: AlertRulePercentsOfDisk_Inr_iff AlertRulePercents.defs AlertRulePercentsOfDisk.defs)
next
  fix r
  assume "AlertRulePercentsOfDisk_model_validate (PDict d) = Inr r"
  then show "map_of d ''name'' = Some (PStr (AlertRulePercentsOfDisk.name r))"
    by (auto simp: AlertRulePercentsOfDisk_Inr_iff AlertRulePercents.defs AlertRulePercentsOfDisk.defs)
qed

theorem AlertRulePercentsOfDisk_name_mandatory_witness:
  "rejected_at (AlertRulePercentsOfDisk_model_validate
     (PDict [(''minThreshold'', PInt 10), (''maxThreshold'', PInt 80), (''minTimeout'', PInt 30)]))
     [Key ''name''] MissingRequiredField \<and>
   rejected_at (AlertRulePercentsOfDisk_model_validate
     (PDict [(''minThreshold'', PInt 10), (''maxThreshold'', PInt 80), (''minTimeout'', PInt 30),
             (''name'', PInt 7)]))
     [Key ''name''] TypeMismatch \<and>
   AlertRulePercentsOfDisk_model_validate
     (PDict [(''minThreshold'', PInt 10), (''maxThreshold'', PInt 80), (''minTimeout'', PInt 30),
             (''name'', PStr ''var'')])
   = Inr \<lparr>AlertRulePercents.min_threshold = 10, AlertRulePercents.max_threshold = 80,
          AlertRulePercents.min_timeout = 30, AlertRulePercentsOfDisk.name = ''var''\<rparr>"
proof (intro conjI)
  note T = AlertRulePercentsOfDisk_name_mandatory
  show "rejected_at (AlertRulePercentsOfDisk_model_validate
     (PDict [(''minThreshold'', PInt 10), (''maxThreshold'', PInt 80), (''minTimeout'', PInt 30)]))
     [Key ''name''] MissingRequiredField"
    using T[THEN conjunct1, rule_format] by simp
  show "rejected_at (AlertRulePercentsOfDisk_model_validate
     (PDict [(''minThreshold'', PInt 10), (''maxThreshold'', PInt 80), (''minTimeout'', PInt 30),
             (''name'', PInt 7)]))
     [Key ''name''] TypeMismatch"
    using T[THEN conjunct2, THEN conjunct1, rule_format, of _ "PInt 7"] by simp
  have "AlertRulePercents_model_validate
     (PDict [(''minThreshold'', PInt 10), (''maxThreshold'', PInt 80), (''minTimeout'', PInt 30),
             (''name'', PStr ''var'')])
     = Inr \<lparr>AlertRulePercents.min_threshold = 10, AlertRulePercents.max_threshold = 80,
          AlertRulePercents.min_timeout = 30\<rparr>"
    by (simp add: AlertRulePercents_model_validate_def required_def at_loc_def
        float_schema_def check_bounds_def AlertRulePercents.defs)
  then show "AlertRulePercentsOfDisk_model_validate
     (PDict [(''minThreshold'', PInt 10), (''maxThreshold'', PInt 80), (''minTimeout'', PInt 30),
             (''name'', PStr ''var'')])
   = Inr \<lparr>AlertRulePercents.min_threshold = 10, AlertRulePercents.max_threshold = 80,
          AlertRulePercents.min_timeout = 30, AlertRulePercentsOfDisk.name = ''var''\<rparr>"
    using T[THEN conjunct2, THEN conjunct2, THEN conjunct1, rule_format,
        of _ "\<lparr>AlertRulePercents.min_threshold = 10, AlertRulePercents.max_threshold = 80,
          AlertRulePercents.min_timeout = 30\<rparr>" "''var''"]
    by simp
qed

text \<open>
  The claim as written fails: an empty partition name, with valid thresholds, is accepted.
\<close>

theorem AlertRulePercentsOfDisk_empty_name_accepted:
  "AlertRulePercentsOfDisk_model_validate
     (PDict [(''name'', PStr ''''), (''minThreshold'', PInt 10), (''maxThreshold'', PInt 80),
             (''minTimeout'', PInt 30)])
   = Inr \<lparr>AlertRulePercents.min_threshold = 10, AlertRulePercents.max_threshold = 80,
          AlertRulePercents.min_timeout = 30, AlertRulePercentsOfDisk.name = ''''\<rparr>"
  by (simp add: AlertRulePercentsOfDisk_model_validate_def required_def at_loc_def
      float_schema_def check_bounds_def AlertRulePercentsOfDisk.defs AlertRulePercents.defs)

lemma AlertRulePoints_Inr_iff:
  "AlertRulePoints_model_validate (PDict d) = Inr r \<longleftrightarrow>
     (\<exists>x y z a b c.
        map_of d ''minThreshold'' = Some x \<and> validate_int x = Inr a \<and>
        map_of d ''maxThreshold'' = Some y \<and> validate_int y = Inr b \<and>
        map_of d ''minTimeout'' = Some z \<and> validate_float z = Inr c \<and>
        0 \<le> a \<and> 0 \<le> b \<and> 0 < c \<and>
        r = \<lparr>AlertRulePoints.min_threshold = a, AlertRulePoints.max_threshold = b,
              AlertRulePoints.min_timeout = c\<rparr>)"
  by (auto simp: AlertRulePoints_model_validate_def ap_Inr_iff required_Inr_iff
      float_schema_Inr_iff int_schema_Inr_iff AlertRulePoints.defs)

section \<open>Point thresholds are non-negative and unbounded above\<close>

text \<open>
  Claim C5. Every accepted \<^verbatim>\<open>AlertRulePoints\<close> has \<open>min_threshold \<ge> 0\<close> and
  \<open>max_threshold \<ge> 0\<close>. There is no upper bound: with a valid timeout, any two
  non-negative integers, however large, are accepted and stored as given. A negative
  \<^verbatim>\<open>minThreshold\<close> or \<^verbatim>\<open>maxThreshold\<close> is rejected with a range violation at its key.
\<close>

theorem AlertRulePoints_nonnegative_unbounded:
  "(\<forall>r. AlertRulePoints_model_validate (PDict d) = Inr r \<longrightarrow>
      0 \<le> AlertRulePoints.min_threshold r \<and> 0 \<le> AlertRulePoints.max_threshold r) \<and>
   (\<forall>m n z c.
      map_of d ''minThreshold'' = Some (PInt m) \<and> 0 \<le> m \<and>
      map_of d ''maxThreshold'' = Some (PInt n) \<and> 0 \<le> n \<and>
      map_of d ''minTimeout'' = Some z \<and> validate_float z = Inr c \<and> 0 < c \<longrightarrow>
      AlertRulePoints_model_validate (PDict d) =
        Inr \<lparr>AlertRulePoints.min_threshold = m, AlertRulePoints.max_threshold = n,
             AlertRulePoints.min_timeout = c\<rparr>) \<and>
   (\<forall>x m. map_of d ''minThreshold'' = Some x \<and> validate_int x = Inr m \<and> m < 0 \<longrightarrow>
      rejected_at (AlertRulePoints_model_validate (PDict d)) [Key ''minThreshold''] RangeViolation) \<and>
   (\<forall>y n. map_of d ''maxThreshold'' = Some y \<and> validate_int y = Inr n \<and> n < 0 \<longrightarrow>
      rejected_at (AlertRulePoints_model_validate (PDict d)) [Key ''maxThreshold''] RangeViolation)"
proof (intro conjI allI impI)
  fix r assume "AlertRulePoints_model_validate (PDict d) = Inr r"
  then show "0 \<le> AlertRulePoints.min_threshold r" and "0 \<le> AlertRulePoints.max_threshold r"
    by (auto simp: AlertRulePoints_Inr_iff)
next
  fix m n z c
  assume "map_of d ''minThreshold'' = Some (PInt m) \<and> 0 \<le> m \<and>
      map_of d ''maxThreshold'' = Some (PInt n) \<and> 0 \<le> n \<and>
      map_of d ''minTimeout'' = Some z \<and> validate_float z = Inr c \<and> 0 < c"
  then show "AlertRulePoints_model_validate (PDict d) =
        Inr \<lparr>AlertRulePoints.min_threshold = m, AlertRulePoints.max_threshold = n,
             AlertRulePoints.min_timeout = c\<rparr>"
    by (simp add: AlertRulePoints_Inr_iff)
next
  fix x m
  assume "map_of d ''minThreshold'' = Some x \<and> validate_int x = Inr m \<and> m < 0"
  then have "rejected_at (required d ''minThreshold'' (int_schema (Some 0) None None None))
      [Key ''minThreshold''] RangeViolation"
    by (intro rejected_at_required_int_range[of _ _ x m]) (auto simp: int_schema_Inr_iff)
  then show "rejected_at (AlertRulePoints_model_validate (PDict d)) [Key ''minThreshold''] RangeViolation"
    by (simp add: AlertRulePoints_model_validate_def rejected_at_ap)
next
  fix y n
  assume "map_of d ''maxThreshold'' = Some y \<and> validate_int y = Inr n \<and> n < 0"
  then have "rejected_at (required d ''maxThreshold'' (int_schema (Some 0) None None None))
      [Key ''maxThreshold''] RangeViolation"
    by (intro rejected_at_required_int_range[of _ _ y n]) (auto simp: int_schema_Inr_iff)
  then show "rejected_at (AlertRulePoints_model_validate (PDict d)) [Key ''maxThreshold''] RangeViolation"
    by (simp add: AlertRulePoints_model_validate_def rejected_at_ap)
qed

theorem AlertRulePoints_nonnegative_unbounded_witness:
  "AlertRulePoints_model_validate
     (PDict [(''minThreshold'', PInt 0), (''maxThreshold'', PInt (10 ^ 30)), (''minTimeout'', PInt 100)])
     = Inr \<lparr>AlertRulePoints.min_threshold = 0, AlertRulePoints.max_threshold = 10 ^ 30,
            AlertRulePoints.min_timeout = 100\<rparr> \<and>
   rejected_at (AlertRulePoints_model_validate
     (PDict [(''minThreshold'', PInt (- 1)), (''maxThreshold'', PInt 5), (''minTimeout'', PInt 100)]))
     [Key ''minThreshold''] RangeViolation \<and>
   rejected_at (AlertRulePoints_model_validate
     (PDict [(''minThreshold'', PInt 1), (''maxThreshold'', PInt (- 5)), (''minTimeout'', PInt 100)]))
     [Key ''maxThreshold''] RangeViolation"
proof (intro conjI)
  note T = AlertRulePoints_nonnegative_unbounded
  show "AlertRulePoints_model_validate
     (PDict [(''minThreshold'', PInt 0), (''maxThreshold'', PInt (10 ^ 30)), (''minTimeout'', PInt 100)])
     = Inr \<lparr>AlertRulePoints.min_threshold = 0, AlertRulePoints.max_threshold = 10 ^ 30,
            AlertRulePoints.min_timeout = 100\<rparr>"
    using T[THEN conjunct2, THEN conjunct1, rule_format, of _ 0 "10 ^ 30" "PInt 100" 100]
    by simp
  show "rejected_at (AlertRulePoints_model_validate
     (PDict [(''minThreshold'', PInt (- 1)), (''maxThreshold'', PInt 5), (''minTimeout'', PInt 100)]))
     [Key ''minThreshold''] RangeViolation"
    using T[THEN conjunct2, THEN conjunct2, THEN conjunct1, rule_format, of _ "PInt (- 1)" "- 1"]
    by simp
  show "rejected_at (AlertRulePoints_model_validate
     (PDict [(''minThreshold'', PInt 1), (''maxThreshold'', PInt (- 5)), (''minTimeout'', PInt 100)]))
     [Key ''maxThreshold''] RangeViolation"
    using T[THEN conjunct2, THEN conjunct2, THEN conjunct2, rule_format, of _ "PInt (- 5)" "- 5"]
    by simp
qed


section \<open>Resource ratios are optional and checked for type only\<close>





lemma required_update_other:
  "k \<noteq> k' \<Longrightarrow> required (AList.update k' x d) k v = required d k v"
  by (simp add: required_def update_conv')







section \<open>Numeric strings are converted; other ill-typed values are rejected\<close>




lemma default_None_update_other:
  "k \<noteq> k' \<Longrightarrow> default_None (AList.update k' x d) k v = default_None d k v"
  by (simp add: default_None_def update_conv')

lemma required_update_same:
  "required (AList.update k x d) k v = at_loc (Key k) (v x)"
  by (simp add: required_def update_conv')

lemma default_None_update_same:
  "default_None (AList.update k x d) k v = at_loc (Key k) (v x)"
  by (simp add: default_None_def update_conv')

lemma NodeConfig_Inr_iff:
  "NodeConfig_model_validate E (PDict d) = Inr r \<longleftrightarrow>
     (\<exists>t i a q dv rs ls p.
        TypeNodeTypeMandatory d = Inr t \<and> TypeNodeIdOptional d = Inr i \<and>
        default_None d ''alertRules'' (just AlertRules_model_validate) = Inr a \<and>
        default_None d ''resourceRatios'' (just ResourceRatiosInfo_model_validate) = Inr q \<and>
        default_None d ''devices'' (just (list_schema (AosDeviceInfo_model_validate E))) = Inr dv \<and>
        default_None d ''resources'' (just (list_schema (ResourceInfo_model_validate E))) = Inr rs \<and>
        default_None d ''labels'' (just (list_schema validate_str)) = Inr ls \<and>
        required d ''priority'' (int_schema (Some 0) None None (Some (2 ^ 32 - 1))) = Inr p \<and>
        r = \<lparr>node_type = t, node_id = i, alert_rules = a, resource_ratios = q, devices = dv,
              resources = rs, labels = ls, priority = p\<rparr>)"
  by (auto simp: NodeConfig_model_validate_def ap_Inr_iff NodeConfig.defs)

lemma NodeConfig_update_priority:
  "NodeConfig_model_validate E (PDict (AList.update ''priority'' x d)) = Inr r \<longleftrightarrow>
     (\<exists>t i a q dv rs ls p.
        TypeNodeTypeMandatory d = Inr t \<and> TypeNodeIdOptional d = Inr i \<and>
        default_None d ''alertRules'' (just AlertRules_model_validate) = Inr a \<and>
        default_None d ''resourceRatios'' (just ResourceRatiosInfo_model_validate) = Inr q \<and>
        default_None d ''devices'' (just (list_schema (AosDeviceInfo_model_validate E))) = Inr dv \<and>
        default_None d ''resources'' (just (list_schema (ResourceInfo_model_validate E))) = Inr rs \<and>
        default_None d ''labels'' (just (list_schema validate_str)) = Inr ls \<and>
        int_schema (Some 0) None None (Some (2 ^ 32 - 1)) x = Inr p \<and>
        r = \<lparr>node_type = t, node_id = i, alert_rules = a, resource_ratios = q, devices = dv,
              resources = rs, labels = ls, priority = p\<rparr>)"
  by (simp add: NodeConfig_Inr_iff TypeNodeTypeMandatory_def TypeNodeIdOptional_def
      default_None_update_other required_update_other required_update_same at_loc_Inr_iff)

lemma node_main_5:
  "NodeConfig_model_validate opaque_common (PDict [(''nodeType'', PStr ''main''), (''priority'', PInt 5)]) =
     Inr \<lparr>node_type = ''main'', node_id = None, alert_rules = None, resource_ratios = None,
          devices = None, resources = None, labels = None, priority = 5\<rparr>"
  by (simp add: NodeConfig_model_validate_def TypeNodeTypeMandatory_def TypeNodeIdOptional_def
      required_def default_None_def at_loc_def int_schema_def check_bounds_def NodeConfig.defs)

section \<open>Node priority is at least 0 and below \<open>2 ^ 32 - 1\<close>\<close>

text \<open>
  Claim C3. Every accepted \<^verbatim>\<open>NodeConfig\<close> has \<open>0 \<le> priority < 2 ^ 32 - 1\<close>. In a
  document that is accepted, replacing the priority by any integer within these bounds
  (\<open>2 ^ 32 - 2\<close> is the largest) gives an accepted document with that priority. A
  priority that converts to an integer below 0 or at least \<open>2 ^ 32 - 1\<close> is rejected
  with a range violation at \<^verbatim>\<open>priority\<close>, and an absent priority with a missing-field
  error. The boundary values \<open>2 ^ 32 - 2\<close>, \<open>2 ^ 32 - 1\<close> and \<open>- 1\<close> are evaluated
  after the theorem.
\<close>

theorem NodeConfig_priority_bounds:
  "(\<forall>r. NodeConfig_model_validate E (PDict d) = Inr r \<longrightarrow> 0 \<le> priority r \<and> priority r < 2 ^ 32 - 1) \<and>
   (\<forall>r n. NodeConfig_model_validate E (PDict d) = Inr r \<and> 0 \<le> n \<and> n < 2 ^ 32 - 1 \<longrightarrow>
      NodeConfig_model_validate E (PDict (AList.update ''priority'' (PInt n) d)) =
        Inr (r\<lparr>priority := n\<rparr>)) \<and>
   (\<forall>x n. map_of d ''priority'' = Some x \<and> validate_int x = Inr n \<and> (n < 0 \<or> 2 ^ 32 - 1 \<le> n) \<longrightarrow>
      rejected_at (NodeConfig_model_validate E (PDict d)) [Key ''priority''] RangeViolation) \<and>
   (map_of d ''priority'' = None \<longrightarrow>
      rejected_at (NodeConfig_model_validate E (PDict d)) [Key ''priority''] MissingRequiredField)"
proof (intro conjI allI impI)
  fix r assume "NodeConfig_model_validate E (PDict d) = Inr r"
  then show "0 \<le> priority r" and "priority r < 2 ^ 32 - 1"
    by (auto simp: NodeConfig_Inr_iff required_Inr_iff int_schema_Inr_iff)
next
  fix r n
  assume "NodeConfig_model_validate E (PDict d) = Inr r \<and> 0 \<le> (n::int) \<and> n < 2 ^ 32 - 1"
  then show "NodeConfig_model_validate E (PDict (AList.update ''priority'' (PInt n) d)) =
        Inr (r\<lparr>priority := n\<rparr>)"
    unfolding NodeConfig_update_priority
    by (auto simp: NodeConfig_Inr_iff int_schema_Inr_iff)
next
  fix x n
  assume "map_of d ''priority'' = Some x \<and> validate_int x = Inr n \<and> (n < 0 \<or> 2 ^ 32 - 1 \<le> n)"
  then have "rejected_at (required d ''priority'' (int_schema (Some 0) None None (Some (2 ^ 32 - 1))))
      [Key ''priority''] RangeViolation"
    by (intro rejected_at_required_int_range[of _ _ x n]) (auto simp: int_schema_Inr_iff)
  then show "rejected_at (NodeConfig_model_validate E (PDict d)) [Key ''priority''] RangeViolation"
    by (simp add: NodeConfig_model_validate_def rejected_at_ap)
next
  assume "map_of d ''priority'' = None"
  then show "rejected_at (NodeConfig_model_validate E (PDict d)) [Key ''priority''] MissingRequiredField"
    by (simp add: NodeConfig_model_validate_def rejected_at_ap rejected_at_required_absent)
qed

theorem NodeConfig_priority_bounds_witness:
  "NodeConfig_model_validate opaque_common
     (PDict [(''nodeType'', PStr ''main''), (''priority'', PInt (2 ^ 32 - 2))]) =
     Inr \<lparr>node_type = ''main'', node_id = None, alert_rules = None, resource_ratios = None,
          devices = None, resources = None, labels = None, priority = 2 ^ 32 - 2\<rparr> \<and>
   rejected_at (NodeConfig_model_validate opaque_common
     (PDict [(''nodeType'', PStr ''main''), (''priority'', PInt (2 ^ 32 - 1))]))
     [Key ''priority''] RangeViolation \<and>
   rejected_at (NodeConfig_model_validate opaque_common
     (PDict [(''nodeType'', PStr ''main''), (''priority'', PInt (- 1))]))
     [Key ''priority''] RangeViolation \<and>
   rejected_at (NodeConfig_model_validate opaque_common (PDict [(''nodeType'', PStr ''main'')]))
     [Key ''priority''] MissingRequiredField"
proof (intro conjI)
  note T = NodeConfig_priority_bounds
  show "NodeConfig_model_validate opaque_common
     (PDict [(''nodeType'', PStr ''main''), (''priority'', PInt (2 ^ 32 - 2))]) =
     Inr \<lparr>node_type = ''main'', node_id = None, alert_rules = None, resource_ratios = None,
          devices = None, resources = None, labels = None, priority = 2 ^ 32 - 2\<rparr>"
    using T[where E = opaque_common and d = "[(''nodeType'', PStr ''main''), (''priority'', PInt 5)]",
        THEN conjunct2, THEN conjunct1, rule_format, OF conjI, OF node_main_5, of "2 ^ 32 - 2"]
    by simp
  show "rejected_at (NodeConfig_model_validate opaque_common
     (PDict [(''nodeType'', PStr ''main''), (''priority'', PInt (2 ^ 32 - 1))]))
     [Key ''priority''] RangeViolation"
    using T[where E = opaque_common
        and d = "[(''nodeType'', PStr ''main''), (''priority'', PInt (2 ^ 32 - 1))]",
        THEN conjunct2, THEN conjunct2, THEN conjunct1, rule_format, of "PInt (2 ^ 32 - 1)" "2 ^ 32 - 1"]
    by simp
  show "rejected_at (NodeConfig_model_validate opaque_common
     (PDict [(''nodeType'', PStr ''main''), (''priority'', PInt (- 1))]))
     [Key ''priority''] RangeViolation"
    using T[where E = opaque_common
        and d = "[(''nodeType'', PStr ''main''), (''priority'', PInt (- 1))]",
        THEN conjunct2, THEN conjunct2, THEN conjunct1, rule_format, of "PInt (- 1)" "- 1"]
    by simp
  show "rejected_at (NodeConfig_model_validate opaque_common (PDict [(''nodeType'', PStr ''main'')]))
     [Key ''priority''] MissingRequiredField"
    using T[where E = opaque_common and d = "[(''nodeType'', PStr ''main'')]",
        THEN conjunct2, THEN conjunct2, THEN conjunct2, rule_format]
    by simp
qed





lemma AlertRules_all_absent:
  assumes "map_of a ''cpu'' = None" and "map_of a ''ram'' = None" and "map_of a ''partitions'' = None"
    and "map_of a ''download'' = None" and "map_of a ''upload'' = None"
  shows "AlertRules_model_validate (PDict a) =
     Inr \<lparr>AlertRules.cpu = None, AlertRules.ram = None, AlertRules.partitions = None,
          AlertRules.download = None, AlertRules.upload = None\<rparr>"
  using assms by (simp add: AlertRules_model_validate_def default_None_def AlertRules.defs)

lemma NodeConfig_update_alertRules:
  "NodeConfig_model_validate E (PDict (AList.update ''alertRules'' x d)) = Inr r \<longleftrightarrow>
     (\<exists>t i a q dv rs ls p.
        TypeNodeTypeMandatory d = Inr t \<and> TypeNodeIdOptional d = Inr i \<and>
        just AlertRules_model_validate x = Inr a \<and>
        default_None d ''resourceRatios'' (just ResourceRatiosInfo_model_validate) = Inr q \<and>
        default_None d ''devices'' (just (list_schema (AosDeviceInfo_model_validate E))) = Inr dv \<and>
        default_None d ''resources'' (just (list_schema (ResourceInfo_model_validate E))) = Inr rs \<and>
        default_None d ''labels'' (just (list_schema validate_str)) = Inr ls \<and>
        required d ''priority'' (int_schema (Some 0) None None (Some (2 ^ 32 - 1))) = Inr p \<and>
        r = \<lparr>node_type = t, node_id = i, alert_rules = a, resource_ratios = q, devices = dv,
              resources = rs, labels = ls, priority = p\<rparr>)"
  by (simp add: NodeConfig_Inr_iff TypeNodeTypeMandatory_def TypeNodeIdOptional_def
      default_None_update_other required_update_other default_None_update_same at_loc_Inr_iff)

section \<open>Nested failures carry the path of the offending field\<close>



section \<open>No alert rules is not the same as empty alert rules\<close>

text \<open>
  Claim C7. An accepted \<^verbatim>\<open>NodeConfig\<close> document without the key \<^verbatim>\<open>alertRules\<close> has
  \<^verbatim>\<open>alert_rules = None\<close>. The same document with an \<^verbatim>\<open>alertRules\<close> dictionary in which
  \<^verbatim>\<open>cpu\<close>, \<^verbatim>\<open>ram\<close>, \<^verbatim>\<open>partitions\<close>, \<^verbatim>\<open>download\<close> and \<^verbatim>\<open>upload\<close> are all absent is
  accepted too, with \<^verbatim>\<open>alert_rules\<close> an \<^verbatim>\<open>AlertRules\<close> instance whose five fields are
  \<^verbatim>\<open>None\<close>; the two instances differ.
\<close>

theorem NodeConfig_absent_alert_rules_distinguished:
  "(\<forall>r. map_of d ''alertRules'' = None \<and> NodeConfig_model_validate E (PDict d) = Inr r \<longrightarrow>
      alert_rules r = None \<and>
      (\<forall>a. map_of a ''cpu'' = None \<and> map_of a ''ram'' = None \<and> map_of a ''partitions'' = None \<and>
           map_of a ''download'' = None \<and> map_of a ''upload'' = None \<longrightarrow>
         NodeConfig_model_validate E (PDict (AList.update ''alertRules'' (PDict a) d)) =
           Inr (r\<lparr>alert_rules :=
                  Some \<lparr>AlertRules.cpu = None, AlertRules.ram = None, AlertRules.partitions = None,
                        AlertRules.download = None, AlertRules.upload = None\<rparr>\<rparr>) \<and>
         r\<lparr>alert_rules :=
             Some \<lparr>AlertRules.cpu = None, AlertRules.ram = None, AlertRules.partitions = None,
                   AlertRules.download = None, AlertRules.upload = None\<rparr>\<rparr> \<noteq> r))"
proof (intro allI impI conjI)
  fix r
  assume a: "map_of d ''alertRules'' = None \<and> NodeConfig_model_validate E (PDict d) = Inr r"
  then show n: "alert_rules r = None"
    by (auto simp: NodeConfig_Inr_iff default_None_def)
  fix a
  assume b: "map_of (a :: (string \<times> pyval) list) ''cpu'' = None \<and> map_of a ''ram'' = None \<and> map_of a ''partitions'' = None \<and>
           map_of a ''download'' = None \<and> map_of a ''upload'' = None"
  then have "AlertRules_model_validate (PDict a) =
     Inr \<lparr>AlertRules.cpu = None, AlertRules.ram = None, AlertRules.partitions = None,
          AlertRules.download = None, AlertRules.upload = None\<rparr>"
    by (intro AlertRules_all_absent) simp_all
  with a show "NodeConfig_model_validate E (PDict (AList.update ''alertRules'' (PDict a) d)) =
           Inr (r\<lparr>alert_rules :=
                  Some \<lparr>AlertRules.cpu = None, AlertRules.ram = None, AlertRules.partitions = None,
                        AlertRules.download = None, AlertRules.upload = None\<rparr>\<rparr>)"
    unfolding NodeConfig_update_alertRules
    by (auto simp: NodeConfig_Inr_iff just_Inr_iff)
  from n show "r\<lparr>alert_rules :=
             Some \<lparr>AlertRules.cpu = None, AlertRules.ram = None, AlertRules.partitions = None,
                   AlertRules.download = None, AlertRules.upload = None\<rparr>\<rparr> \<noteq> r"
    by (cases r) auto
qed

theorem NodeConfig_absent_alert_rules_distinguished_witness:
  "NodeConfig_model_validate opaque_common
     (PDict [(''nodeType'', PStr ''main''), (''priority'', PInt 5)]) =
     Inr \<lparr>node_type = ''main'', node_id = None, alert_rules = None, resource_ratios = None,
          devices = None, resources = None, labels = None, priority = 5\<rparr> \<and>
   NodeConfig_model_validate opaque_common
     (PDict [(''nodeType'', PStr ''main''), (''priority'', PInt 5), (''alertRules'', PDict [])]) =
     Inr \<lparr>node_type = ''main'', node_id = None,
          alert_rules = Some \<lparr>AlertRules.cpu = None, AlertRules.ram = None,
            AlertRules.partitions = None, AlertRules.download = None, AlertRules.upload = None\<rparr>,
          resource_ratios = None, devices = None, resources = None, labels = None, priority = 5\<rparr>"
proof (intro conjI)
  show "NodeConfig_model_validate opaque_common
     (PDict [(''nodeType'', PStr ''main''), (''priority'', PInt 5)]) =
     Inr \<lparr>node_type = ''main'', node_id = None, alert_rules = None, resource_ratios = None,
          devices = None, resources = None, labels = None, priority = 5\<rparr>"
    by (rule node_main_5)
  have absent: "map_of [(''nodeType'', PStr ''main''), (''priority'', PInt 5)] ''alertRules'' = None"
    by simp
  show "NodeConfig_model_validate opaque_common
     (PDict [(''nodeType'', PStr ''main''), (''priority'', PInt 5), (''alertRules'', PDict [])]) =
     Inr \<lparr>node_type = ''main'', node_id = None,
          alert_rules = Some \<lparr>AlertRules.cpu = None, AlertRules.ram = None,
            AlertRules.partitions = None, AlertRules.download = None, AlertRules.upload = None\<rparr>,
          resource_ratios = None, devices = None, resources = None, labels = None, priority = 5\<rparr>"
    using NodeConfig_absent_alert_rules_distinguished[where E = opaque_common
        and d = "[(''nodeType'', PStr ''main''), (''priority'', PInt 5)]", rule_format,
        OF conjI, OF absent node_main_5, THEN conjunct2, rule_format, of "[]", THEN conjunct1]
    by simp
qed


section \<open>Documents are read and written under the wire names\<close>



section \<open>Validated values survive serialization and re-validation\<close>

lemma map_of_filter_values:
  "distinct (map fst kvs) \<Longrightarrow>
   map_of (filter (\<lambda>(k, v). P v) kvs) a =
     (case map_of kvs a of None \<Rightarrow> None | Some v \<Rightarrow> if P v then Some v else None)"
proof (induction kvs)
  case Nil
  then show ?case by simp
next
  case (Cons kv kvs)
  obtain k v where kv: "kv = (k, v)" by (cases kv)
  from Cons.prems kv have "map_of kvs k = None"
    by (simp add: map_of_eq_None_iff)
  then have "map_of (filter (\<lambda>(k, v). P v) kvs) k = None"
    by (auto simp: map_of_eq_None_iff)
  with Cons kv show ?case by simp
qed

lemma is_None_dump_opt:
  "is_None (dump_opt f y) \<longleftrightarrow> (case y of None \<Rightarrow> True | Some z \<Rightarrow> is_None (f z))"
  by (cases y) (simp_all add: dump_opt_def)

lemma is_None_dump_fields [simp]: "\<not> is_None (dump_fields e kvs)"
  by (simp add: dump_fields_def)

lemma is_None_dump_list [simp]: "\<not> is_None (dump_list f xs)"
  by (simp add: dump_list_def)

lemma required_roundtrip:
  assumes "required d a V = Inr y"
    and "\<And>x z. V x = Inr z \<Longrightarrow> V (f z) = Inr z"
    and "map_of d' a = Some (f y)"
  shows "required d' a V = Inr y"
  using assms by (auto simp: required_Inr_iff)

lemma default_None_roundtrip:
  assumes "default_None d a (just V) = Inr y"
    and "\<And>x z. V x = Inr z \<Longrightarrow> V (f z) = Inr z"
    and "map_of d' a = (case y of None \<Rightarrow> None | Some z \<Rightarrow> Some (f z))"
  shows "default_None d' a (just V) = Inr y"
  using assms by (auto simp: default_None_Inr_iff just_Inr_iff split: option.splits)

lemma nullable_schema_Inr_iff:
  "nullable_schema V x = Inr y \<longleftrightarrow> (x = PNone \<and> y = None) \<or> (x \<noteq> PNone \<and> (\<exists>z. V x = Inr z \<and> y = Some z))"
  by (cases x) (auto simp: nullable_schema_def ap_Inr_iff)

lemma default_None_nullable_roundtrip:
  assumes "default_None d a (nullable_schema V) = Inr y"
    and "\<And>x z. V x = Inr z \<Longrightarrow> V (f z) = Inr z"
    and "\<And>z. f z \<noteq> PNone"
    and "map_of d' a = (case y of None \<Rightarrow> None | Some z \<Rightarrow> Some (f z))"
  shows "default_None d' a (nullable_schema V) = Inr y"
  using assms by (auto simp: default_None_Inr_iff nullable_schema_Inr_iff split: option.splits)

lemma validate_items_roundtrip:
  assumes "\<And>x z. V x = Inr z \<Longrightarrow> V (f z) = Inr z"
  shows "validate_items V i xs = Inr ys \<Longrightarrow> validate_items V j (map f ys) = Inr ys"
proof (induction xs arbitrary: ys i j)
  case Nil
  then show ?case by simp
next
  case (Cons x xs)
  from Cons.prems obtain z zs where z: "V x = Inr z" and zs: "validate_items V (Suc i) xs = Inr zs"
    and ys: "ys = z # zs"
    by (auto simp: ap_Inr_iff at_loc_Inr_iff)
  from Cons.IH[OF zs] have "validate_items V (Suc j) (map f zs) = Inr zs" .
  with assms[OF z] ys show ?case
    by (simp add: at_loc_def)
qed

lemma list_schema_roundtrip:
  assumes "\<And>x z. V x = Inr z \<Longrightarrow> V (f z) = Inr z" and "list_schema V x = Inr ys"
  shows "list_schema V (dump_list f ys) = Inr ys"
proof -
  from assms(2) obtain xs where "x = PList xs"
    by (cases x) (simp_all add: fail_def)
  with assms(2) have "validate_items V 0 xs = Inr ys" by simp
  from validate_items_roundtrip[OF assms(1) this] show ?thesis
    by (simp add: dump_list_def)
qed

lemma float_schema_roundtrip:
  "float_schema ge le gt lt x = Inr z \<Longrightarrow> float_schema ge le gt lt (PFloat z) = Inr z"
  by (simp add: float_schema_Inr_iff)

lemma int_schema_roundtrip:
  "int_schema ge le gt lt x = Inr z \<Longrightarrow> int_schema ge le gt lt (PInt z) = Inr z"
  by (simp add: int_schema_Inr_iff)

lemma validate_str_roundtrip: "validate_str x = Inr z \<Longrightarrow> validate_str (PStr z) = Inr z"
  by simp

lemma str_int_schema_roundtrip:
  "str_int_schema x = Inr z \<Longrightarrow> str_int_schema (dump_str_int z) = Inr z"
  by (cases z) simp_all

lemma AlertRulePercents_roundtrip:
  assumes "AlertRulePercents_model_validate v = Inr r"
  shows "AlertRulePercents_model_validate (AlertRulePercents_model_dump True True r) = Inr r"
proof -
  obtain d where v: "v = PDict d"
    using assms by (cases v) (simp_all add: AlertRulePercents_model_validate_def fail_def)
  from assms[unfolded v] show ?thesis
    by (auto simp: AlertRulePercents_Inr_iff AlertRulePercents_model_dump_def dump_fields_def
        field_key_def)
qed

lemma AlertRulePercentsOfDisk_roundtrip:
  assumes "AlertRulePercentsOfDisk_model_validate v = Inr r"
  shows "AlertRulePercentsOfDisk_model_validate (AlertRulePercentsOfDisk_model_dump True True r) = Inr r"
proof -
  obtain d where v: "v = PDict d"
    using assms by (cases v) (simp_all add: AlertRulePercentsOfDisk_model_validate_def fail_def)
  from assms[unfolded v] show ?thesis
    by (auto simp: AlertRulePercentsOfDisk_Inr_iff AlertRulePercents_Inr_iff
        AlertRulePercentsOfDisk_model_dump_def dump_fields_def field_key_def
        AlertRulePercents.defs AlertRulePercentsOfDisk.defs)
qed

lemma AlertRulePoints_roundtrip:
  assumes "AlertRulePoints_model_validate v = Inr r"
  shows "AlertRulePoints_model_validate (AlertRulePoints_model_dump True True r) = Inr r"
proof -
  obtain d where v: "v = PDict d"
    using assms by (cases v) (simp_all add: AlertRulePoints_model_validate_def fail_def)
  from assms[unfolded v] show ?thesis
    by (auto simp: AlertRulePoints_Inr_iff AlertRulePoints_model_dump_def dump_fields_def
        field_key_def)
qed

lemma ResourceRatiosInfo_roundtrip:
  assumes "ResourceRatiosInfo_model_validate v = Inr r"
  shows "ResourceRatiosInfo_model_validate (ResourceRatiosInfo_model_dump True True r) = Inr r"
proof -
  obtain d where v: "v = PDict d"
    using assms by (cases v) (simp_all add: ResourceRatiosInfo_model_validate_def fail_def)
  from assms[unfolded v] obtain c m s t where
    c: "default_None d ''cpu'' (just (float_schema None None None None)) = Inr c" and
    m: "default_None d ''ram'' (just (float_schema None None None None)) = Inr m" and
    s: "default_None d ''storage'' (just (float_schema None None None None)) = Inr s" and
    t: "default_None d ''state'' (just (float_schema None None None None)) = Inr t" and
    r: "r = \<lparr>ResourceRatiosInfo.cpu = c, ResourceRatiosInfo.ram = m,
             ResourceRatiosInfo.storage = s, ResourceRatiosInfo.state = t\<rparr>"
    by (auto simp: ResourceRatiosInfo_model_validate_def ap_Inr_iff ResourceRatiosInfo.defs)
  define kvs where "kvs = [(''cpu'', dump_opt PFloat c), (''ram'', dump_opt PFloat m),
    (''storage'', dump_opt PFloat s), (''state'', dump_opt PFloat t)]"
  define d' where "d' = filter (\<lambda>(k, v). \<not> is_None v) kvs"
  have dump: "ResourceRatiosInfo_model_dump True True r = PDict d'"
    by (simp add: ResourceRatiosInfo_model_dump_def dump_fields_def field_key_def r d'_def kvs_def)
  have look: "map_of d' a =
      (case map_of kvs a of None \<Rightarrow> None | Some v \<Rightarrow> if \<not> is_None v then Some v else None)" for a
    unfolding d'_def by (rule map_of_filter_values) (simp add: kvs_def)
  have c': "default_None d' ''cpu'' (just (float_schema None None None None)) = Inr c"
    by (rule default_None_roundtrip[OF c float_schema_roundtrip])
      (simp_all add: look kvs_def is_None_dump_opt dump_opt_def split: option.splits)
  have m': "default_None d' ''ram'' (just (float_schema None None None None)) = Inr m"
    by (rule default_None_roundtrip[OF m float_schema_roundtrip])
      (simp_all add: look kvs_def is_None_dump_opt dump_opt_def split: option.splits)
  have s': "default_None d' ''storage'' (just (float_schema None None None None)) = Inr s"
    by (rule default_None_roundtrip[OF s float_schema_roundtrip])
      (simp_all add: look kvs_def is_None_dump_opt dump_opt_def split: option.splits)
  have t': "default_None d' ''state'' (just (float_schema None None None None)) = Inr t"
    by (rule default_None_roundtrip[OF t float_schema_roundtrip])
      (simp_all add: look kvs_def is_None_dump_opt dump_opt_def split: option.splits)
  show ?thesis
    unfolding dump
    by (simp add: ResourceRatiosInfo_model_validate_def c' m' s' t' r ResourceRatiosInfo.defs)
qed

lemma AlertRulePercentsOfDisk_dump_not_None:
  "dump_list (AlertRulePercentsOfDisk_model_dump True True) z \<noteq> PNone"
  by (simp add: dump_list_def)

lemma AlertRules_roundtrip:
  assumes "AlertRules_model_validate v = Inr r"
  shows "AlertRules_model_validate (AlertRules_model_dump True True r) = Inr r"
proof -
  obtain d where v: "v = PDict d"
    using assms by (cases v) (simp_all add: AlertRules_model_validate_def fail_def)
  from assms[unfolded v] obtain c m p dl ul where
    c: "default_None d ''cpu'' (just AlertRulePercents_model_validate) = Inr c" and
    m: "default_None d ''ram'' (just AlertRulePercents_model_validate) = Inr m" and
    p: "default_None d ''partitions''
          (nullable_schema (list_schema AlertRulePercentsOfDisk_model_validate)) = Inr p" and
    dl: "default_None d ''download'' (just AlertRulePoints_model_validate) = Inr dl" and
    ul: "default_None d ''upload'' (just AlertRulePoints_model_validate) = Inr ul" and
    r: "r = \<lparr>AlertRules.cpu = c, AlertRules.ram = m, AlertRules.partitions = p,
             AlertRules.download = dl, AlertRules.upload = ul\<rparr>"
    by (auto simp: AlertRules_model_validate_def ap_Inr_iff AlertRules.defs)
  define kvs where "kvs =
    [(''cpu'', dump_opt (AlertRulePercents_model_dump True True) c),
     (''ram'', dump_opt (AlertRulePercents_model_dump True True) m),
     (''partitions'', dump_opt (dump_list (AlertRulePercentsOfDisk_model_dump True True)) p),
     (''download'', dump_opt (AlertRulePoints_model_dump True True) dl),
     (''upload'', dump_opt (AlertRulePoints_model_dump True True) ul)]"
  define d' where "d' = filter (\<lambda>(k, v). \<not> is_None v) kvs"
  have dump: "AlertRules_model_dump True True r = PDict d'"
    by (simp add: AlertRules_model_dump_def dump_fields_def field_key_def r d'_def kvs_def)
  have look: "map_of d' a =
      (case map_of kvs a of None \<Rightarrow> None | Some v \<Rightarrow> if \<not> is_None v then Some v else None)" for a
    unfolding d'_def by (rule map_of_filter_values) (simp add: kvs_def)
  have c': "default_None d' ''cpu'' (just AlertRulePercents_model_validate) = Inr c"
    by (rule default_None_roundtrip[OF c AlertRulePercents_roundtrip])
      (simp_all add: look kvs_def is_None_dump_opt AlertRulePercents_model_dump_def dump_opt_def
        split: option.splits)
  have m': "default_None d' ''ram'' (just AlertRulePercents_model_validate) = Inr m"
    by (rule default_None_roundtrip[OF m AlertRulePercents_roundtrip])
      (simp_all add: look kvs_def is_None_dump_opt AlertRulePercents_model_dump_def dump_opt_def
        split: option.splits)
  have p': "default_None d' ''partitions''
          (nullable_schema (list_schema AlertRulePercentsOfDisk_model_validate)) = Inr p"
    by (rule default_None_nullable_roundtrip[OF p
          list_schema_roundtrip[OF AlertRulePercentsOfDisk_roundtrip]
          AlertRulePercentsOfDisk_dump_not_None])
      (simp_all add: look kvs_def dump_opt_def split: option.splits)
  have dl': "default_None d' ''download'' (just AlertRulePoints_model_validate) = Inr dl"
    by (rule default_None_roundtrip[OF dl AlertRulePoints_roundtrip])
      (simp_all add: look kvs_def is_None_dump_opt AlertRulePoints_model_dump_def dump_opt_def
        split: option.splits)
  have ul': "default_None d' ''upload'' (just AlertRulePoints_model_validate) = Inr ul"
    by (rule default_None_roundtrip[OF ul AlertRulePoints_roundtrip])
      (simp_all add: look kvs_def is_None_dump_opt AlertRulePoints_model_dump_def dump_opt_def
        split: option.splits)
  show ?thesis
    unfolding dump
    by (simp add: AlertRules_model_validate_def c' m' p' dl' ul' r AlertRules.defs)
qed

lemma is_None_dump_str_int [simp]: "\<not> is_None (dump_str_int z)"
  by (cases z) simp_all

lemma ResourceInfo_roundtrip:
  assumes mnt: "\<And>x z. AosFileSystemMount_model_validate E x = Inr z \<Longrightarrow>
      AosFileSystemMount_model_validate E (AosFileSystemMount_model_dump E True True z) = Inr z"
    and host: "\<And>x z. AosHostRecord_model_validate E x = Inr z \<Longrightarrow>
      AosHostRecord_model_validate E (AosHostRecord_model_dump E True True z) = Inr z"
    and "ResourceInfo_model_validate E v = Inr r"
  shows "ResourceInfo_model_validate E (ResourceInfo_model_dump E True True r) = Inr r"
proof -
  obtain d where v: "v = PDict d"
    using assms(3) by (cases v) (simp_all add: ResourceInfo_model_validate_def fail_def)
  from assms(3)[unfolded v] obtain n g m e h where
    n: "required d ''name'' validate_str = Inr n" and
    g: "default_None d ''groups'' (just (list_schema validate_str)) = Inr g" and
    m: "default_None d ''mounts'' (just (list_schema (AosFileSystemMount_model_validate E))) = Inr m" and
    e: "default_None d ''envs'' (just (list_schema validate_str)) = Inr e" and
    h: "default_None d ''hosts'' (just (list_schema (AosHostRecord_model_validate E))) = Inr h" and
    r: "r = \<lparr>ResourceInfo.name = n, groups = g, mounts = m, envs = e, hosts = h\<rparr>"
    by (auto simp: ResourceInfo_model_validate_def ap_Inr_iff ResourceInfo.defs)
  define kvs where "kvs =
    [(''name'', PStr n),
     (''groups'', dump_opt (dump_list PStr) g),
     (''mounts'', dump_opt (dump_list (AosFileSystemMount_model_dump E True True)) m),
     (''envs'', dump_opt (dump_list PStr) e),
     (''hosts'', dump_opt (dump_list (AosHostRecord_model_dump E True True)) h)]"
  define d' where "d' = filter (\<lambda>(k, v). \<not> is_None v) kvs"
  have dump: "ResourceInfo_model_dump E True True r = PDict d'"
    by (simp add: ResourceInfo_model_dump_def dump_fields_def field_key_def r d'_def kvs_def)
  have look: "map_of d' a =
      (case map_of kvs a of None \<Rightarrow> None | Some v \<Rightarrow> if \<not> is_None v then Some v else None)" for a
    unfolding d'_def by (rule map_of_filter_values) (simp add: kvs_def)
  have n': "required d' ''name'' validate_str = Inr n"
    by (rule required_roundtrip[OF n validate_str_roundtrip]) (simp_all add: look kvs_def)
  have g': "default_None d' ''groups'' (just (list_schema validate_str)) = Inr g"
    by (rule default_None_roundtrip[OF g list_schema_roundtrip[OF validate_str_roundtrip]])
      (simp_all add: look kvs_def is_None_dump_opt dump_opt_def split: option.splits)
  have m': "default_None d' ''mounts'' (just (list_schema (AosFileSystemMount_model_validate E))) = Inr m"
    by (rule default_None_roundtrip[OF m list_schema_roundtrip[OF mnt]])
      (simp_all add: look kvs_def is_None_dump_opt dump_opt_def split: option.splits)
  have e': "default_None d' ''envs'' (just (list_schema validate_str)) = Inr e"
    by (rule default_None_roundtrip[OF e list_schema_roundtrip[OF validate_str_roundtrip]])
      (simp_all add: look kvs_def is_None_dump_opt dump_opt_def split: option.splits)
  have h': "default_None d' ''hosts'' (just (list_schema (AosHostRecord_model_validate E))) = Inr h"
    by (rule default_None_roundtrip[OF h list_schema_roundtrip[OF host]])
      (simp_all add: look kvs_def is_None_dump_opt dump_opt_def split: option.splits)
  show ?thesis
    unfolding dump
    by (simp add: ResourceInfo_model_validate_def n' g' m' e' h' r ResourceInfo.defs)
qed

lemma NodeConfig_roundtrip:
  assumes dev: "\<And>x z. AosDeviceInfo_model_validate E x = Inr z \<Longrightarrow>
      AosDeviceInfo_model_validate E (AosDeviceInfo_model_dump E True True z) = Inr z"
    and mnt: "\<And>x z. AosFileSystemMount_model_validate E x = Inr z \<Longrightarrow>
      AosFileSystemMount_model_validate E (AosFileSystemMount_model_dump E True True z) = Inr z"
    and host: "\<And>x z. AosHostRecord_model_validate E x = Inr z \<Longrightarrow>
      AosHostRecord_model_validate E (AosHostRecord_model_dump E True True z) = Inr z"
    and "NodeConfig_model_validate E v = Inr r"
  shows "NodeConfig_model_validate E (NodeConfig_model_dump E True True r) = Inr r"
proof -
  obtain d where v: "v = PDict d"
    using assms(4) by (cases v) (simp_all add: NodeConfig_model_validate_def fail_def)
  from assms(4)[unfolded v] obtain t i a q dv rs ls p where
    t: "required d ''nodeType'' validate_str = Inr t" and
    i: "default_None d ''nodeId'' (just validate_str) = Inr i" and
    a: "default_None d ''alertRules'' (just AlertRules_model_validate) = Inr a" and
    q: "default_None d ''resourceRatios'' (just ResourceRatiosInfo_model_validate) = Inr q" and
    dv: "default_None d ''devices'' (just (list_schema (AosDeviceInfo_model_validate E))) = Inr dv" and
    rs: "default_None d ''resources'' (just (list_schema (ResourceInfo_model_validate E))) = Inr rs" and
    ls: "default_None d ''labels'' (just (list_schema validate_str)) = Inr ls" and
    p: "required d ''priority'' (int_schema (Some 0) None None (Some (2 ^ 32 - 1))) = Inr p" and
    r: "r = \<lparr>node_type = t, node_id = i, alert_rules = a, resource_ratios = q, devices = dv,
              resources = rs, labels = ls, priority = p\<rparr>"
    unfolding NodeConfig_Inr_iff TypeNodeTypeMandatory_def TypeNodeIdOptional_def by blast
  define kvs where "kvs =
    [(''nodeType'', PStr t),
     (''nodeId'', dump_opt PStr i),
     (''alertRules'', dump_opt (AlertRules_model_dump True True) a),
     (''resourceRatios'', dump_opt (ResourceRatiosInfo_model_dump True True) q),
     (''devices'', dump_opt (dump_list (AosDeviceInfo_model_dump E True True)) dv),
     (''resources'', dump_opt (dump_list (ResourceInfo_model_dump E True True)) rs),
     (''labels'', dump_opt (dump_list PStr) ls),
     (''priority'', PInt p)]"
  define d' where "d' = filter (\<lambda>(k, v). \<not> is_None v) kvs"
  have dump: "NodeConfig_model_dump E True True r = PDict d'"
    by (simp add: NodeConfig_model_dump_def dump_fields_def field_key_def r d'_def kvs_def)
  have look: "map_of d' a =
      (case map_of kvs a of None \<Rightarrow> None | Some v \<Rightarrow> if \<not> is_None v then Some v else None)" for a
    unfolding d'_def by (rule map_of_filter_values) (simp add: kvs_def)
  have t': "required d' ''nodeType'' validate_str = Inr t"
    by (rule required_roundtrip[OF t validate_str_roundtrip]) (simp_all add: look kvs_def)
  have i': "default_None d' ''nodeId'' (just validate_str) = Inr i"
    by (rule default_None_roundtrip[OF i validate_str_roundtrip])
      (simp_all add: look kvs_def is_None_dump_opt dump_opt_def split: option.splits)
  have a': "default_None d' ''alertRules'' (just AlertRules_model_validate) = Inr a"
    by (rule default_None_roundtrip[OF a AlertRules_roundtrip])
      (simp_all add: look kvs_def is_None_dump_opt AlertRules_model_dump_def dump_opt_def
        split: option.splits)
  have q': "default_None d' ''resourceRatios'' (just ResourceRatiosInfo_model_validate) = Inr q"
    by (rule default_None_roundtrip[OF q ResourceRatiosInfo_roundtrip])
      (simp_all add: look kvs_def is_None_dump_opt ResourceRatiosInfo_model_dump_def dump_opt_def
        split: option.splits)
  have dv': "default_None d' ''devices'' (just (list_schema (AosDeviceInfo_model_validate E))) = Inr dv"
    by (rule default_None_roundtrip[OF dv list_schema_roundtrip[OF dev]])
      (simp_all add: look kvs_def is_None_dump_opt dump_opt_def split: option.splits)
  have rs': "default_None d' ''resources'' (just (list_schema (ResourceInfo_model_validate E))) = Inr rs"
    by (rule default_None_roundtrip[OF rs list_schema_roundtrip[OF ResourceInfo_roundtrip[OF mnt host]]])
      (simp_all add: look kvs_def is_None_dump_opt dump_opt_def split: option.splits)
  have ls': "default_None d' ''labels'' (just (list_schema validate_str)) = Inr ls"
    by (rule default_None_roundtrip[OF ls list_schema_roundtrip[OF validate_str_roundtrip]])
      (simp_all add: look kvs_def is_None_dump_opt dump_opt_def split: option.splits)
  have p': "required d' ''priority'' (int_schema (Some 0) None None (Some (2 ^ 32 - 1))) = Inr p"
    by (rule required_roundtrip[OF p int_schema_roundtrip]) (simp_all add: look kvs_def)
  show ?thesis
    unfolding dump NodeConfig_Inr_iff TypeNodeTypeMandatory_def TypeNodeIdOptional_def
    using t' i' a' q' dv' rs' ls' p' r by blast
qed

lemma UnitConfig_roundtrip_aux:
  assumes dev: "\<And>x z. AosDeviceInfo_model_validate E x = Inr z \<Longrightarrow>
      AosDeviceInfo_model_validate E (AosDeviceInfo_model_dump E True True z) = Inr z"
    and mnt: "\<And>x z. AosFileSystemMount_model_validate E x = Inr z \<Longrightarrow>
      AosFileSystemMount_model_validate E (AosFileSystemMount_model_dump E True True z) = Inr z"
    and host: "\<And>x z. AosHostRecord_model_validate E x = Inr z \<Longrightarrow>
      AosHostRecord_model_validate E (AosHostRecord_model_dump E True True z) = Inr z"
    and "UnitConfig_model_validate E v = Inr r"
  shows "UnitConfig_model_validate E (UnitConfig_model_dump E True True r) = Inr r"
proof -
  obtain d where v: "v = PDict d"
    using assms(4) by (cases v) (simp_all add: UnitConfig_model_validate_def fail_def)
  from assms(4)[unfolded v] obtain f s ns where
    f: "required d ''formatVersion'' str_int_schema = Inr f" and
    s: "required d ''version'' validate_str = Inr s" and
    ns: "required d ''nodes'' (list_schema (NodeConfig_model_validate E)) = Inr ns" and
    r: "r = \<lparr>format_version = f, version = s, nodes = ns\<rparr>"
    by (auto simp: UnitConfig_model_validate_def TypeVersionMandatory_def ap_Inr_iff UnitConfig.defs)
  define kvs where "kvs =
    [(''formatVersion'', dump_str_int f),
     (''version'', PStr s),
     (''nodes'', dump_list (NodeConfig_model_dump E True True) ns)]"
  define d' where "d' = filter (\<lambda>(k, v). \<not> is_None v) kvs"
  have dump: "UnitConfig_model_dump E True True r = PDict d'"
    by (simp add: UnitConfig_model_dump_def dump_fields_def field_key_def r d'_def kvs_def)
  have look: "map_of d' a =
      (case map_of kvs a of None \<Rightarrow> None | Some v \<Rightarrow> if \<not> is_None v then Some v else None)" for a
    unfolding d'_def by (rule map_of_filter_values) (simp add: kvs_def)
  have f': "required d' ''formatVersion'' str_int_schema = Inr f"
    by (rule required_roundtrip[OF f str_int_schema_roundtrip]) (simp_all add: look kvs_def)
  have s': "required d' ''version'' validate_str = Inr s"
    by (rule required_roundtrip[OF s validate_str_roundtrip]) (simp_all add: look kvs_def)
  have ns': "required d' ''nodes'' (list_schema (NodeConfig_model_validate E)) = Inr ns"
    by (rule required_roundtrip[OF ns list_schema_roundtrip[OF NodeConfig_roundtrip[OF dev mnt host]]])
      (simp_all add: look kvs_def)
  show ?thesis
    unfolding dump
    by (simp add: UnitConfig_model_validate_def TypeVersionMandatory_def f' s' ns' r UnitConfig.defs)
qed

lemma opaque_common_roundtrip:
  "AosDeviceInfo_model_validate opaque_common
     (AosDeviceInfo_model_dump opaque_common True True z) = Inr z"
  "AosFileSystemMount_model_validate opaque_common
     (AosFileSystemMount_model_dump opaque_common True True z) = Inr z"
  "AosHostRecord_model_validate opaque_common
     (AosHostRecord_model_dump opaque_common True True z) = Inr z"
  by (simp_all add: opaque_common_def opaque_model_validate_def opaque_model_dump_def)

lemma example_unit_document_validates:
  "fv = PStr s \<and> f = VStr s \<or> fv = PInt n \<and> f = VInt n \<Longrightarrow>
   UnitConfig_model_validate opaque_common (example_unit_document fv) = Inr (example_unit f)"
  by (auto simp add: example_unit_document_def example_unit_def
      UnitConfig_model_validate_def NodeConfig_model_validate_def
      TypeVersionMandatory_def TypeNodeTypeMandatory_def TypeNodeIdOptional_def
      AlertRules_model_validate_def AlertRulePercents_model_validate_def
      required_def default_None_def just_def at_loc_def int_schema_def float_schema_def
      check_bounds_def UnitConfig.defs NodeConfig.defs AlertRules.defs AlertRulePercents.defs)

text \<open>
  Claim C4 (amended). Let the classes of the missing module \<^verbatim>\<open>common\<close> re-validate what
  they serialize. Then for every validated \<^verbatim>\<open>UnitConfig\<close> value, serializing it by alias
  with the \<^verbatim>\<open>None\<close> fields left out (\<^verbatim>\<open>model_dump(by_alias=True, exclude_none=True)\<close>)
  and validating the output gives the value back, equal in every field. The output
  carries the format version in the representation the value holds (a string as a
  string, an integer as an integer) and the nodes in their order.
\<close>

theorem UnitConfig_serialize_parse_roundtrip:
  "((\<forall>x z. AosDeviceInfo_model_validate E x = Inr z \<longrightarrow>
       AosDeviceInfo_model_validate E (AosDeviceInfo_model_dump E True True z) = Inr z) \<and>
    (\<forall>x z. AosFileSystemMount_model_validate E x = Inr z \<longrightarrow>
       AosFileSystemMount_model_validate E (AosFileSystemMount_model_dump E True True z) = Inr z) \<and>
    (\<forall>x z. AosHostRecord_model_validate E x = Inr z \<longrightarrow>
       AosHostRecord_model_validate E (AosHostRecord_model_dump E True True z) = Inr z) \<and>
    UnitConfig_model_validate E v = Inr u \<longrightarrow>
      UnitConfig_model_validate E (UnitConfig_model_dump E True True u) = Inr u) \<and>
   UnitConfig_model_dump E True True u =
     PDict [(''formatVersion'', dump_str_int (format_version u)),
            (''version'', PStr (version u)),
            (''nodes'', PList (map (NodeConfig_model_dump E True True) (nodes u)))]"
proof (intro conjI impI)
  assume a: "(\<forall>x z. AosDeviceInfo_model_validate E x = Inr z \<longrightarrow>
       AosDeviceInfo_model_validate E (AosDeviceInfo_model_dump E True True z) = Inr z) \<and>
    (\<forall>x z. AosFileSystemMount_model_validate E x = Inr z \<longrightarrow>
       AosFileSystemMount_model_validate E (AosFileSystemMount_model_dump E True True z) = Inr z) \<and>
    (\<forall>x z. AosHostRecord_model_validate E x = Inr z \<longrightarrow>
       AosHostRecord_model_validate E (AosHostRecord_model_dump E True True z) = Inr z) \<and>
    UnitConfig_model_validate E v = Inr u"
  show "UnitConfig_model_validate E (UnitConfig_model_dump E True True u) = Inr u"
  proof (rule UnitConfig_roundtrip_aux)
    show "UnitConfig_model_validate E v = Inr u" using a by simp
  qed (use a in blast)+
next
  show "UnitConfig_model_dump E True True u =
     PDict [(''formatVersion'', dump_str_int (format_version u)),
            (''version'', PStr (version u)),
            (''nodes'', PList (map (NodeConfig_model_dump E True True) (nodes u)))]"
    by (simp add: UnitConfig_model_dump_def dump_fields_def field_key_def dump_list_def)
qed

theorem UnitConfig_serialize_parse_roundtrip_witness:
  "UnitConfig_model_validate opaque_common (example_unit_document (PStr ''2'')) =
     Inr (example_unit (VStr ''2'')) \<and>
   UnitConfig_model_validate opaque_common
     (UnitConfig_model_dump opaque_common True True (example_unit (VStr ''2''))) =
     Inr (example_unit (VStr ''2'')) \<and>
   UnitConfig_model_validate opaque_common (example_unit_document (PInt 2)) =
     Inr (example_unit (VInt 2)) \<and>
   UnitConfig_model_validate opaque_common
     (UnitConfig_model_dump opaque_common True True (example_unit (VInt 2))) =
     Inr (example_unit (VInt 2)) \<and>
   UnitConfig_model_dump opaque_common True True (example_unit (VStr ''2'')) =
     PDict [(''formatVersion'', PStr ''2''), (''version'', PStr ''1.0.0''),
            (''nodes'', PList
               [PDict [(''nodeType'', PStr ''main''),
                       (''alertRules'', PDict [(''cpu'', PDict [(''minThreshold'', PFloat 10),
                          (''maxThreshold'', PFloat 80), (''minTimeout'', PFloat 30)])]),
                       (''priority'', PInt 5)],
                PDict [(''nodeType'', PStr ''aux''), (''nodeId'', PStr ''n2''),
                       (''labels'', PList [PStr ''b'', PStr ''a'']), (''priority'', PInt 0)]])]"
proof (intro conjI)
  note T = UnitConfig_serialize_parse_roundtrip[where E = opaque_common, THEN conjunct1, rule_format]
  show s: "UnitConfig_model_validate opaque_common (example_unit_document (PStr ''2'')) =
     Inr (example_unit (VStr ''2''))"
    by (rule example_unit_document_validates) simp
  show i: "UnitConfig_model_validate opaque_common (example_unit_document (PInt 2)) =
     Inr (example_unit (VInt 2))"
    by (rule example_unit_document_validates) simp
  show "UnitConfig_model_validate opaque_common
     (UnitConfig_model_dump opaque_common True True (example_unit (VStr ''2''))) =
     Inr (example_unit (VStr ''2''))"
    using T[where v = "example_unit_document (PStr ''2'')" and u = "example_unit (VStr ''2'')"] s
    by (simp add: opaque_common_roundtrip)
  show "UnitConfig_model_validate opaque_common
     (UnitConfig_model_dump opaque_common True True (example_unit (VInt 2))) =
     Inr (example_unit (VInt 2))"
    using T[where v = "example_unit_document (PInt 2)" and u = "example_unit (VInt 2)"] i
    by (simp add: opaque_common_roundtrip)
  show "UnitConfig_model_dump opaque_common True True (example_unit (VStr ''2'')) =
     PDict [(''formatVersion'', PStr ''2''), (''version'', PStr ''1.0.0''),
            (''nodes'', PList
               [PDict [(''nodeType'', PStr ''main''),
                       (''alertRules'', PDict [(''cpu'', PDict [(''minThreshold'', PFloat 10),
                          (''maxThreshold'', PFloat 80), (''minTimeout'', PFloat 30)])]),
                       (''priority'', PInt 5)],
                PDict [(''nodeType'', PStr ''aux''), (''nodeId'', PStr ''n2''),
                       (''labels'', PList [PStr ''b'', PStr ''a'']), (''priority'', PInt 0)]])]"
    by (simp add: example_unit_def UnitConfig_model_dump_def NodeConfig_model_dump_def
        AlertRules_model_dump_def AlertRulePercents_model_dump_def
        dump_fields_def field_key_def dump_opt_def dump_list_def)
qed

text \<open>
  The claim as written fails: serialized by alias with the library's default
  \<^verbatim>\<open>exclude_none=False\<close>, a node that configures no alert rules is written with
  \<^verbatim>\<open>alertRules: None\<close>, and \<^verbatim>\<open>None\<close> is not an \<^verbatim>\<open>AlertRules\<close>: the output of a validated
  unit is rejected. The same holds for the other fields declared with a default of
  \<^verbatim>\<open>None\<close> and an annotation that does not admit \<^verbatim>\<open>None\<close>.
\<close>

theorem UnitConfig_roundtrip_fails_when_None_is_emitted:
  "UnitConfig_model_validate opaque_common
     (PDict [(''formatVersion'', PInt 2), (''version'', PStr ''1.0.0''),
             (''nodes'', PList [PDict [(''nodeType'', PStr ''main''), (''nodeId'', PStr ''n1''),
                                       (''priority'', PInt 5)]])]) = Inr plain_unit \<and>
   UnitConfig_model_dump opaque_common True False plain_unit =
     PDict [(''formatVersion'', PInt 2), (''version'', PStr ''1.0.0''),
            (''nodes'', PList [PDict [(''nodeType'', PStr ''main''), (''nodeId'', PStr ''n1''),
               (''alertRules'', PNone), (''resourceRatios'', PNone), (''devices'', PNone),
               (''resources'', PNone), (''labels'', PNone), (''priority'', PInt 5)]])] \<and>
   UnitConfig_model_validate opaque_common (UnitConfig_model_dump opaque_common True False plain_unit) =
     Inl [([Key ''nodes'', Idx 0, Key ''alertRules''], ModelType),
          ([Key ''nodes'', Idx 0, Key ''resourceRatios''], ModelType),
          ([Key ''nodes'', Idx 0, Key ''devices''], ListType),
          ([Key ''nodes'', Idx 0, Key ''resources''], ListType),
          ([Key ''nodes'', Idx 0, Key ''labels''], ListType)]"
proof (intro conjI)
  show "UnitConfig_model_validate opaque_common
     (PDict [(''formatVersion'', PInt 2), (''version'', PStr ''1.0.0''),
             (''nodes'', PList [PDict [(''nodeType'', PStr ''main''), (''nodeId'', PStr ''n1''),
                                       (''priority'', PInt 5)]])]) = Inr plain_unit"
    by (simp add: plain_unit_def UnitConfig_model_validate_def NodeConfig_model_validate_def
        TypeVersionMandatory_def TypeNodeTypeMandatory_def TypeNodeIdOptional_def
        required_def default_None_def just_def at_loc_def int_schema_def check_bounds_def
        UnitConfig.defs NodeConfig.defs)
  show d: "UnitConfig_model_dump opaque_common True False plain_unit =
     PDict [(''formatVersion'', PInt 2), (''version'', PStr ''1.0.0''),
            (''nodes'', PList [PDict [(''nodeType'', PStr ''main''), (''nodeId'', PStr ''n1''),
               (''alertRules'', PNone), (''resourceRatios'', PNone), (''devices'', PNone),
               (''resources'', PNone), (''labels'', PNone), (''priority'', PInt 5)]])]"
    by (simp add: plain_unit_def UnitConfig_model_dump_def NodeConfig_model_dump_def
        dump_fields_def field_key_def dump_opt_def dump_list_def)
  show "UnitConfig_model_validate opaque_common (UnitConfig_model_dump opaque_common True False plain_unit) =
     Inl [([Key ''nodes'', Idx 0, Key ''alertRules''], ModelType),
          ([Key ''nodes'', Idx 0, Key ''resourceRatios''], ModelType),
          ([Key ''nodes'', Idx 0, Key ''devices''], ListType),
          ([Key ''nodes'', Idx 0, Key ''resources''], ListType),
          ([Key ''nodes'', Idx 0, Key ''labels''], ListType)]"
    unfolding d
    by (simp add: UnitConfig_model_validate_def NodeConfig_model_validate_def
        TypeVersionMandatory_def TypeNodeTypeMandatory_def TypeNodeIdOptional_def
        AlertRules_model_validate_def ResourceRatiosInfo_model_validate_def
        required_def default_None_def just_def at_loc_def int_schema_def check_bounds_def fail_def)
qed

end
